theory Spec2Isabelle
  imports Complex_Main "HOL-Library.Word"
begin

section \<open>Light-time solution: scalars, states and external constants\<close>

text \<open>
  The development embeds \<^verbatim>\<open>lightTimeSolution.h\<close>. The scalar and time types of the
  templates (\<^verbatim>\<open>ObservationScalarType\<close>, \<^verbatim>\<open>TimeType\<close>, \<^verbatim>\<open>double\<close>) are modelled by
  exact reals: rounding and infinities are outside the model. A NaN is modelled only
  where the code tests for one, by the extra value \<open>NaN\<close> of the type below:
  the unset tolerance of the convergence criteria and the entries of the link-end time
  and state vectors that hold no initial guess.
\<close>

datatype 'a or_nan = NaN | Num 'a

text \<open>\<^verbatim>\<open>Eigen::Matrix< ObservationScalarType, 6, 1 >\<close>: three position and three velocity
  components.\<close>

record StateType =
  pos1 :: real
  pos2 :: real
  pos3 :: real
  vel1 :: real
  vel2 :: real
  vel3 :: real

text \<open>\<^verbatim>\<open>( receiverState - transmitterState ).segment( 0, 3 ).norm( )\<close>\<close>

definition positionDifferenceNorm :: "StateType \<Rightarrow> StateType \<Rightarrow> real" where
  "positionDifferenceNorm receiverState transmitterState =
     sqrt ((pos1 receiverState - pos1 transmitterState)\<^sup>2
         + (pos2 receiverState - pos2 transmitterState)\<^sup>2
         + (pos3 receiverState - pos3 transmitterState)\<^sup>2)"

text \<open>
  Two functions the header only declares or includes are parameters of the model:
  \<^verbatim>\<open>physical_constants::getSpeedOfLight\<close> (from \<^verbatim>\<open>physicalConstants.h\<close>) and
  \<^verbatim>\<open>getDefaultLightTimeTolerance\<close> (declared at the top of the header, defined
  elsewhere). Every function below that uses one of them takes this record.
\<close>

record externals =
  getSpeedOfLight :: real
  getDefaultLightTimeTolerance :: real

section \<open>Convergence criteria\<close>

datatype LightTimeFailureHandling =
  accept_without_warning | print_warning_and_accept | throw_exception

text \<open>The iteration limit is a C++ \<^verbatim>\<open>int\<close>; it and the loop counter compared with it
  are modelled by unbounded integers (signed overflow of the counter, after \<open>2^31\<close>
  iterations, is undefined behaviour in the source and is not modelled).\<close>

record LightTimeConvergenceCriteria =
  iterateCorrections :: bool
  maximumNumberOfIterations :: int
  failureHandling :: LightTimeFailureHandling
  absoluteTolerance :: "real or_nan"

text \<open>The constructor with its default arguments: no iteration of the corrections, 50
  iterations, tolerance \<^verbatim>\<open>TUDAT_NAN\<close>, \<^verbatim>\<open>accept_without_warning\<close>.\<close>

definition defaultLightTimeConvergenceCriteria :: LightTimeConvergenceCriteria where
  "defaultLightTimeConvergenceCriteria =
     \<lparr> iterateCorrections = False, maximumNumberOfIterations = 50,
       failureHandling = accept_without_warning, absoluteTolerance = NaN \<rparr>"

text \<open>\<^verbatim>\<open>getAbsoluteTolerance\<close>: the test \<^verbatim>\<open>absoluteTolerance_ == absoluteTolerance_\<close> fails
  exactly for a NaN. The method reads the object and writes nothing.\<close>

definition getAbsoluteTolerance :: "externals \<Rightarrow> LightTimeConvergenceCriteria \<Rightarrow> real" where
  "getAbsoluteTolerance K convergenceCriteria =
     (case absoluteTolerance convergenceCriteria of
        Num tol \<Rightarrow> tol
      | NaN \<Rightarrow> getDefaultLightTimeTolerance K)"

section \<open>Errors and output\<close>

text \<open>
  Every \<^verbatim>\<open>throw\<close> of the header, and \<^verbatim>\<open>std::out_of_range\<close> of \<^verbatim>\<open>std::vector::at\<close>,
  is a value of \<open>error\<close>. The message of a convergence failure is built from three
  numbers; the model keeps the numbers instead of their decimal rendering:
  the residual \<^verbatim>\<open>fabs( new - previous )\<close>, the current correction and the current time.
\<close>

datatype error =
    InconsistentStateTimeVectors
  | OutOfRange
  | LightTimeUnconverged real real real
  | InvalidRetransmissionDelaysSize nat
  | NonZeroDelayAtReferenceLinkEnd
  | LinkEndIndexError

text \<open>Lines written to \<^verbatim>\<open>std::cerr\<close>: the warning of \<^verbatim>\<open>print_warning_and_accept\<close> (same
  three numbers) and the line \<^verbatim>\<open>"Light time: "\<close> that every solve prints before it
  returns.\<close>

datatype cerr_line =
    Warning real real real
  | LightTimeLine real

section \<open>The convergence test\<close>

text \<open>
  \<^verbatim>\<open>isLightTimeSolutionConverged\<close> returns \<^verbatim>\<open>isToleranceReached\<close> and updates
  \<^verbatim>\<open>updateLightTimeCorrections\<close> through a reference; the model returns both, with the
  lines printed. The \<^verbatim>\<open>default:\<close> branch of the switch cannot be reached from the
  three enumerators and has no counterpart.
\<close>

definition isLightTimeSolutionConverged ::
  "externals \<Rightarrow> LightTimeConvergenceCriteria \<Rightarrow> real \<Rightarrow> real \<Rightarrow> int \<Rightarrow> real \<Rightarrow> real \<Rightarrow> bool
     \<Rightarrow> error + (bool \<times> bool \<times> cerr_line list)" where
  "isLightTimeSolutionConverged K convergenceCriteria previousLightTimeCalculation
       newLightTimeCalculation numberOfIterations currentCorrection currentTime
       updateLightTimeCorrections =
     (if \<bar>newLightTimeCalculation - previousLightTimeCalculation\<bar>
           < getAbsoluteTolerance K convergenceCriteria
      then (if \<not> updateLightTimeCorrections
            then Inr (False, True, [])
            else Inr (True, updateLightTimeCorrections, []))
      else if numberOfIterations = maximumNumberOfIterations convergenceCriteria
      then (case failureHandling convergenceCriteria of
              accept_without_warning \<Rightarrow> Inr (True, updateLightTimeCorrections, [])
            | print_warning_and_accept \<Rightarrow>
                Inr (False, updateLightTimeCorrections,
                     [Warning \<bar>newLightTimeCalculation - previousLightTimeCalculation\<bar>
                        currentCorrection currentTime])
            | throw_exception \<Rightarrow>
                Inl (LightTimeUnconverged
                       \<bar>newLightTimeCalculation - previousLightTimeCalculation\<bar>
                       currentCorrection currentTime))
      else Inr (False, updateLightTimeCorrections, []))"

section \<open>The single-leg calculator\<close>

type_synonym LightTimeCorrectionFunction =
  "StateType \<Rightarrow> StateType \<Rightarrow> real \<Rightarrow> real \<Rightarrow> real"

text \<open>
  The members of \<^verbatim>\<open>LightTimeCalculator\<close>. State and correction providers are pure
  functions. The two cached values are the only members a solve writes. (Here and in
  the other records a member \<^verbatim>\<open>name_\<close> of the source is the field \<open>name\<close>: an
  identifier of the logic cannot end in an underscore.)
\<close>

record LightTimeCalculator =
  stateFunctionOfTransmittingBody :: "real \<Rightarrow> StateType"
  stateFunctionOfReceivingBody :: "real \<Rightarrow> StateType"
  correctionFunctions :: "LightTimeCorrectionFunction list"
  lightTimeConvergenceCriteria :: LightTimeConvergenceCriteria
  currentIdealLightTime :: real
  currentCorrection :: real

definition getCurrentIdealLightTime :: "LightTimeCalculator \<Rightarrow> real" where
  "getCurrentIdealLightTime this = currentIdealLightTime this"

definition getCurrentLightTimeCorrection :: "LightTimeCalculator \<Rightarrow> real" where
  "getCurrentLightTimeCorrection this = currentCorrection this"

text \<open>\<^verbatim>\<open>setTotalLightTimeCorrection\<close>: the loop over \<^verbatim>\<open>correctionFunctions_\<close> adds each
  provider's value to a total that starts at zero.\<close>

definition setTotalLightTimeCorrection ::
  "LightTimeCalculator \<Rightarrow> StateType \<Rightarrow> StateType \<Rightarrow> real \<Rightarrow> real \<Rightarrow> LightTimeCalculator" where
  "setTotalLightTimeCorrection this transmitterState receiverState transmissionTime
       receptionTime =
     this\<lparr> currentCorrection :=
             fold (\<lambda>correctionFunction totalLightTimeCorrections.
                     totalLightTimeCorrections
                       + correctionFunction transmitterState receiverState
                           transmissionTime receptionTime)
                  (correctionFunctions this) 0 \<rparr>"

text \<open>\<^verbatim>\<open>calculateNewLightTimeEstimate\<close> stores the ideal light time and returns it plus the
  stored correction.\<close>

definition calculateNewLightTimeEstimate ::
  "externals \<Rightarrow> LightTimeCalculator \<Rightarrow> StateType \<Rightarrow> StateType \<Rightarrow> real \<times> LightTimeCalculator" where
  "calculateNewLightTimeEstimate K this receiverState transmitterState =
     (let this' = this\<lparr> currentIdealLightTime :=
                          positionDifferenceNorm receiverState transmitterState
                            / getSpeedOfLight K \<rparr>
      in (currentIdealLightTime this' + currentCorrection this', this'))"

text \<open>The local variables of \<^verbatim>\<open>calculateLightTimeWithMultiLegLinkEndsStates\<close> that live
  across the loop, with the calculator object and the lines printed so far.\<close>

record solve_state =
  receptionTime :: real
  transmissionTime :: real
  receiverState :: StateType
  transmitterState :: StateType
  previousLightTimeCalculation :: real
  newLightTimeCalculation :: real
  isToleranceReached :: bool
  counter :: int
  updateLightTimeCorrections :: bool
  calculator :: LightTimeCalculator
  cerr :: "cerr_line list"

text \<open>One pass through the body of \<^verbatim>\<open>while( !isToleranceReached )\<close>.\<close>

definition loopBody :: "externals \<Rightarrow> real \<Rightarrow> bool \<Rightarrow> solve_state \<Rightarrow> error + solve_state" where
  "loopBody K time isTimeAtReception s =
     (let this1 = (if updateLightTimeCorrections s
                   then setTotalLightTimeCorrection (calculator s) (transmitterState s)
                          (receiverState s) (transmissionTime s) (receptionTime s)
                   else calculator s);
          s1 = (if isTimeAtReception
                then s\<lparr> receptionTime := time,
                        transmissionTime := time - previousLightTimeCalculation s,
                        transmitterState :=
                          stateFunctionOfTransmittingBody this1
                            (time - previousLightTimeCalculation s) \<rparr>
                else s\<lparr> receptionTime := time + previousLightTimeCalculation s,
                        transmissionTime := time,
                        receiverState :=
                          stateFunctionOfReceivingBody this1
                            (time + previousLightTimeCalculation s) \<rparr>);
          (new, this2) =
            calculateNewLightTimeEstimate K this1 (receiverState s1) (transmitterState s1)
      in case isLightTimeSolutionConverged K (lightTimeConvergenceCriteria this2)
                (previousLightTimeCalculation s) new (counter s)
                (currentCorrection this2) time (updateLightTimeCorrections s) of
           Inl e \<Rightarrow> Inl e
         | Inr (reached, update, printed) \<Rightarrow>
             Inr (s1\<lparr> newLightTimeCalculation := new,
                      isToleranceReached := reached,
                      updateLightTimeCorrections := update,
                      calculator := this2,
                      cerr := cerr s @ printed,
                      previousLightTimeCalculation := new,
                      counter := counter s + 1 \<rparr>))"

text \<open>
  The loop itself. The source's loop has no bound of its own, so the model runs it on
  fuel: \<open>None\<close> means that the loop has not ended within \<open>n\<close> passes, \<open>Some (Inl e)\<close>
  that a pass threw \<open>e\<close>, \<open>Some (Inr s)\<close> that the loop ended in state \<open>s\<close>.
\<close>

fun whileLoop :: "nat \<Rightarrow> externals \<Rightarrow> real \<Rightarrow> bool \<Rightarrow> solve_state \<Rightarrow> (error + solve_state) option" where
  "whileLoop 0 K time isTimeAtReception s =
     (if isToleranceReached s then Some (Inr s) else None)"
| "whileLoop (Suc n) K time isTimeAtReception s =
     (if isToleranceReached s then Some (Inr s)
      else case loopBody K time isTimeAtReception s of
             Inl e \<Rightarrow> Some (Inl e)
           | Inr s' \<Rightarrow> whileLoop n K time isTimeAtReception s')"

subsection \<open>Vectors\<close>

text \<open>\<^verbatim>\<open>std::vector::at\<close> throws \<^verbatim>\<open>std::out_of_range\<close> outside the vector, on a read and
  on a write.\<close>

definition vector_at :: "'a list \<Rightarrow> nat \<Rightarrow> error + 'a" where
  "vector_at xs i = (if i < length xs then Inr (xs ! i) else Inl OutOfRange)"

definition vector_assign_at :: "'a list \<Rightarrow> nat \<Rightarrow> 'a \<Rightarrow> error + 'a list" where
  "vector_assign_at xs i v = (if i < length xs then Inr (xs[i := v]) else Inl OutOfRange)"

text \<open>\<^verbatim>\<open>size( ) - 1\<close> in \<^verbatim>\<open>std::size_t\<close> (64 bits): an empty vector gives \<open>2^64 - 1\<close>.\<close>

definition size_minus_one :: "'a list \<Rightarrow> nat" where
  "size_minus_one xs = (if length xs = 0 then 2 ^ 64 - 1 else length xs - 1)"

subsection \<open>The solve\<close>

text \<open>
  The initial guess of the reception and transmission times. The condition
  \<^verbatim>\<open>!isnan( linkEndsTimes.at( t ) ) && !isnan( linkEndsTimes.at( r ) )\<close> reads the
  transmitter's entry first and the receiver's entry only when the first is a number.
  The result is the pair (reception time, transmission time).
\<close>

definition initialGuess ::
  "real or_nan list \<Rightarrow> real \<Rightarrow> nat \<Rightarrow> nat \<Rightarrow> error + (real \<times> real)" where
  "initialGuess linkEndsTimes time multiLegTransmitterIndex multiLegReceiverIndex =
     (case vector_at linkEndsTimes multiLegTransmitterIndex of
        Inl e \<Rightarrow> Inl e
      | Inr NaN \<Rightarrow> Inr (time, time)
      | Inr (Num transmissionGuess) \<Rightarrow>
          (case vector_at linkEndsTimes multiLegReceiverIndex of
             Inl e \<Rightarrow> Inl e
           | Inr NaN \<Rightarrow> Inr (time, time)
           | Inr (Num receptionGuess) \<Rightarrow> Inr (receptionGuess, transmissionGuess)))"

text \<open>The state in which the loop is entered: both states evaluated at the initial guess,
  the total correction set there, the first estimate computed from it.\<close>

definition initialState ::
  "externals \<Rightarrow> LightTimeCalculator \<Rightarrow> real \<Rightarrow> real \<Rightarrow> solve_state" where
  "initialState K this receptionTime0 transmissionTime0 =
     (let receiverState0 = stateFunctionOfReceivingBody this receptionTime0;
          transmitterState0 = stateFunctionOfTransmittingBody this transmissionTime0;
          this1 = setTotalLightTimeCorrection this transmitterState0 receiverState0
                    transmissionTime0 receptionTime0;
          (previous, this2) =
            calculateNewLightTimeEstimate K this1 receiverState0 transmitterState0
      in \<lparr> receptionTime = receptionTime0,
           transmissionTime = transmissionTime0,
           receiverState = receiverState0,
           transmitterState = transmitterState0,
           previousLightTimeCalculation = previous,
           newLightTimeCalculation = 0,
           isToleranceReached = False,
           counter = 0,
           updateLightTimeCorrections =
             iterateCorrections (lightTimeConvergenceCriteria this2),
           calculator = this2,
           cerr = [] \<rparr>)"

text \<open>What a solve that returns leaves behind: the returned light time, the two vectors
  passed by reference, the calculator with its cache, the lines printed.\<close>

record LightTimeSolution =
  returnedLightTime :: real
  linkEndsStatesAfter :: "StateType or_nan list"
  linkEndsTimesAfter :: "real or_nan list"
  calculatorAfter :: LightTimeCalculator
  cerrAfter :: "cerr_line list"

text \<open>The four assignments after the loop, and the \<^verbatim>\<open>"Light time: "\<close> line.\<close>

definition setOutput ::
  "StateType or_nan list \<Rightarrow> real or_nan list \<Rightarrow> nat \<Rightarrow> nat \<Rightarrow> solve_state
     \<Rightarrow> error + LightTimeSolution" where
  "setOutput linkEndsStates linkEndsTimes multiLegTransmitterIndex multiLegReceiverIndex s =
     (case vector_assign_at linkEndsTimes multiLegReceiverIndex (Num (receptionTime s)) of
        Inl e \<Rightarrow> Inl e
      | Inr times1 \<Rightarrow>
     (case vector_assign_at times1 multiLegTransmitterIndex (Num (transmissionTime s)) of
        Inl e \<Rightarrow> Inl e
      | Inr times2 \<Rightarrow>
     (case vector_assign_at linkEndsStates multiLegReceiverIndex (Num (receiverState s)) of
        Inl e \<Rightarrow> Inl e
      | Inr states1 \<Rightarrow>
     (case vector_assign_at states1 multiLegTransmitterIndex (Num (transmitterState s)) of
        Inl e \<Rightarrow> Inl e
      | Inr states2 \<Rightarrow>
          Inr \<lparr> returnedLightTime = newLightTimeCalculation s,
                linkEndsStatesAfter = states2,
                linkEndsTimesAfter = times2,
                calculatorAfter = calculator s,
                cerrAfter = cerr s @ [LightTimeLine (newLightTimeCalculation s)] \<rparr>))))"

text \<open>
  \<^verbatim>\<open>calculateLightTimeWithMultiLegLinkEndsStates\<close>. The transmitter index is an
  \<^verbatim>\<open>unsigned int\<close>, so the receiver index wraps at \<open>2^32\<close>; the comparison with
  \<^verbatim>\<open>size( ) - 1\<close> is made in \<^verbatim>\<open>std::size_t\<close>. The first argument is the fuel of the
  loop.
\<close>

definition calculateLightTimeWithMultiLegLinkEndsStates ::
  "nat \<Rightarrow> externals \<Rightarrow> LightTimeCalculator \<Rightarrow> StateType or_nan list \<Rightarrow> real or_nan list
     \<Rightarrow> real \<Rightarrow> bool \<Rightarrow> 32 word \<Rightarrow> (error + LightTimeSolution) option" where
  "calculateLightTimeWithMultiLegLinkEndsStates n K this linkEndsStates linkEndsTimes time
       isTimeAtReception multiLegTransmitterIndex =
     (let multiLegReceiverIndex = multiLegTransmitterIndex + 1 in
      if length linkEndsStates \<noteq> length linkEndsTimes
         \<or> unat multiLegReceiverIndex > size_minus_one linkEndsTimes
      then Some (Inl InconsistentStateTimeVectors)
      else case initialGuess linkEndsTimes time (unat multiLegTransmitterIndex)
                  (unat multiLegReceiverIndex) of
             Inl e \<Rightarrow> Some (Inl e)
           | Inr (receptionTime0, transmissionTime0) \<Rightarrow>
               (case whileLoop n K time isTimeAtReception
                       (initialState K this receptionTime0 transmissionTime0) of
                  None \<Rightarrow> None
                | Some (Inl e) \<Rightarrow> Some (Inl e)
                | Some (Inr s) \<Rightarrow>
                    Some (setOutput linkEndsStates linkEndsTimes
                            (unat multiLegTransmitterIndex) (unat multiLegReceiverIndex) s)))"

text \<open>\<^verbatim>\<open>calculateLightTimeWithLinkEndsStates\<close>: one leg, no initial guess. The result is
  the light time with the receiver and the transmitter state, and the calculator.\<close>

definition calculateLightTimeWithLinkEndsStates ::
  "nat \<Rightarrow> externals \<Rightarrow> LightTimeCalculator \<Rightarrow> real \<Rightarrow> bool
     \<Rightarrow> (error + (real \<times> StateType or_nan \<times> StateType or_nan \<times> LightTimeCalculator)) option" where
  "calculateLightTimeWithLinkEndsStates n K this time isTimeAtReception =
     (case calculateLightTimeWithMultiLegLinkEndsStates n K this
             (replicate 2 NaN) (replicate 2 NaN) time isTimeAtReception 0 of
        None \<Rightarrow> None
      | Some (Inl e) \<Rightarrow> Some (Inl e)
      | Some (Inr r) \<Rightarrow>
          (case vector_at (linkEndsStatesAfter r) 0 of
             Inl e \<Rightarrow> Some (Inl e)
           | Inr transmitterStateOutput \<Rightarrow>
          (case vector_at (linkEndsStatesAfter r) 1 of
             Inl e \<Rightarrow> Some (Inl e)
           | Inr receiverStateOutput \<Rightarrow>
               Some (Inr (returnedLightTime r, receiverStateOutput, transmitterStateOutput,
                          calculatorAfter r)))))"

definition calculateLightTime ::
  "nat \<Rightarrow> externals \<Rightarrow> LightTimeCalculator \<Rightarrow> real \<Rightarrow> bool
     \<Rightarrow> (error + (real \<times> LightTimeCalculator)) option" where
  "calculateLightTime n K this time isTimeAtReception =
     (case calculateLightTimeWithLinkEndsStates n K this time isTimeAtReception of
        None \<Rightarrow> None
      | Some (Inl e) \<Rightarrow> Some (Inl e)
      | Some (Inr (lightTime, receiverState', transmitterState', this')) \<Rightarrow>
          Some (Inr (lightTime, this')))"

section \<open>The multi-leg calculator\<close>

text \<open>
  The members of \<^verbatim>\<open>MultiLegLightTimeCalculator\<close>. The two counts are
  \<^verbatim>\<open>unsigned int\<close>. The calculators are held through shared pointers; the model holds
  their values, which is exact as long as no calculator occurs twice in the list (a
  solve writes a calculator's cache before it reads it, so its results do not depend
  on the cache it finds).
\<close>

record MultiLegLightTimeCalculator =
  lightTimeCalculators :: "LightTimeCalculator list"
  multiLegLightTimeConvergenceCriteria :: LightTimeConvergenceCriteria
  numberOfLinks :: "32 word"
  numberOfLinkEnds :: "32 word"

text \<open>The constructor.\<close>

definition newMultiLegLightTimeCalculator ::
  "LightTimeCalculator list \<Rightarrow> LightTimeConvergenceCriteria \<Rightarrow> MultiLegLightTimeCalculator" where
  "newMultiLegLightTimeCalculator calculators criteria =
     \<lparr> lightTimeCalculators = calculators,
       multiLegLightTimeConvergenceCriteria = criteria,
       numberOfLinks = of_nat (length calculators),
       numberOfLinkEnds = of_nat (length calculators + 1) \<rparr>"

text \<open>
  The first block of \<^verbatim>\<open>calculateLightTimeWithLinkEndsStates\<close>: the value of
  \<^verbatim>\<open>currentRetransmissionDelays\<close> when the block is left. The argument is \<open>None\<close>
  for \<^verbatim>\<open>ancillarySettings == nullptr\<close> and otherwise the vector that
  \<^verbatim>\<open>getAncilliaryDoubleVectorData( retransmission_delays )\<close> returns (the settings class
  is not part of the header). \<^verbatim>\<open>numberOfLinkEnds_ - 2\<close> is computed in
  \<^verbatim>\<open>unsigned int\<close>.
\<close>

definition currentRetransmissionDelays ::
  "MultiLegLightTimeCalculator \<Rightarrow> real list option \<Rightarrow> error + real list" where
  "currentRetransmissionDelays this ancillarySettings =
     (case ancillarySettings of
        Some delays \<Rightarrow>
          if length delays = unat (numberOfLinkEnds this) then Inr delays
          else if length delays = unat (numberOfLinkEnds this - 2)
          then Inr (0 # delays @ [0])
          else Inl (InvalidRetransmissionDelaysSize (length delays))
      | None \<Rightarrow> Inr (replicate (unat (numberOfLinkEnds this)) 0))"

text \<open>The check of the reference link end: interior, with a delay that is not zero.\<close>

definition referenceLinkEndCheck ::
  "MultiLegLightTimeCalculator \<Rightarrow> real list \<Rightarrow> 32 word \<Rightarrow> error + unit" where
  "referenceLinkEndCheck this delays startLinkEndIndex =
     (if startLinkEndIndex \<noteq> 0 \<and> startLinkEndIndex \<noteq> numberOfLinkEnds this - 1
      then (case vector_at delays (unat startLinkEndIndex) of
              Inl e \<Rightarrow> Inl e
            | Inr delay \<Rightarrow> if delay \<noteq> 0 then Inl NonZeroDelayAtReferenceLinkEnd else Inr ())
      else Inr ())"

text \<open>The variables of the two loops over the legs.\<close>

record walk_state =
  legStates :: "StateType or_nan list"
  legTimes :: "real or_nan list"
  legCalculators :: "LightTimeCalculator list"
  totalLightTime :: real
  currentLinkEndTime :: real
  legCerr :: "cerr_line list"

text \<open>
  One leg of either loop: the calculator \<open>leg\<close> solves for the given direction with
  transmitter index \<open>2 * leg\<close> (in \<^verbatim>\<open>unsigned int\<close>), the delay at \<open>delayIndex\<close> is
  added to its light time, and the sum is added to the total and moves the current
  time (back when the time is at reception, forward otherwise).
\<close>

definition solveLeg ::
  "nat \<Rightarrow> externals \<Rightarrow> real list \<Rightarrow> bool \<Rightarrow> nat \<Rightarrow> nat \<Rightarrow> walk_state
     \<Rightarrow> (error + walk_state) option" where
  "solveLeg n K delays isTimeAtReception leg delayIndex w =
     (case vector_at (legCalculators w) leg of
        Inl e \<Rightarrow> Some (Inl e)
      | Inr legCalculator \<Rightarrow>
     (case calculateLightTimeWithMultiLegLinkEndsStates n K legCalculator (legStates w)
             (legTimes w) (currentLinkEndTime w) isTimeAtReception (2 * of_nat leg) of
        None \<Rightarrow> None
      | Some (Inl e) \<Rightarrow> Some (Inl e)
      | Some (Inr r) \<Rightarrow>
     (case vector_at delays delayIndex of
        Inl e \<Rightarrow> Some (Inl e)
      | Inr delay \<Rightarrow>
          (let currentLightTime = returnedLightTime r + delay
           in Some (Inr \<lparr> legStates = linkEndsStatesAfter r,
                           legTimes = linkEndsTimesAfter r,
                           legCalculators = (legCalculators w)[leg := calculatorAfter r],
                           totalLightTime = totalLightTime w + currentLightTime,
                           currentLinkEndTime =
                             (if isTimeAtReception
                              then currentLinkEndTime w - currentLightTime
                              else currentLinkEndTime w + currentLightTime),
                           legCerr = legCerr w @ cerrAfter r \<rparr>)))))"

text \<open>The loop "backwards" from the reference link end to the transmitter:
  \<^verbatim>\<open>currentDownIndex\<close> runs from the start index down to 1.\<close>

fun moveBackwards ::
  "nat \<Rightarrow> externals \<Rightarrow> real list \<Rightarrow> nat \<Rightarrow> walk_state \<Rightarrow> (error + walk_state) option" where
  "moveBackwards n K delays 0 w = Some (Inr w)"
| "moveBackwards n K delays (Suc currentDownIndexMinus1) w =
     (case solveLeg n K delays True currentDownIndexMinus1 currentDownIndexMinus1 w of
        None \<Rightarrow> None
      | Some (Inl e) \<Rightarrow> Some (Inl e)
      | Some (Inr w') \<Rightarrow> moveBackwards n K delays currentDownIndexMinus1 w')"

text \<open>The loop "forwards" from the reference link end to the receiver:
  \<^verbatim>\<open>currentUpIndex\<close> runs from the start index up to \<^verbatim>\<open>numberOfLinkEnds_ - 1\<close>
  (exclusive). The index stays below \<open>2^32 - 1\<close>, so its increment does not wrap.\<close>

function moveForwards ::
  "nat \<Rightarrow> externals \<Rightarrow> real list \<Rightarrow> nat \<Rightarrow> nat \<Rightarrow> walk_state \<Rightarrow> (error + walk_state) option" where
  "moveForwards n K delays bound currentUpIndex w =
     (if currentUpIndex < bound
      then (case solveLeg n K delays False currentUpIndex (currentUpIndex + 1) w of
              None \<Rightarrow> None
            | Some (Inl e) \<Rightarrow> Some (Inl e)
            | Some (Inr w') \<Rightarrow> moveForwards n K delays bound (currentUpIndex + 1) w')
      else Some (Inr w))"
  by pat_completeness auto
termination
  by (relation "measure (\<lambda>(n, K, delays, bound, currentUpIndex, w). bound - currentUpIndex)")
     auto

declare moveForwards.simps [simp del]

record MultiLegLightTimeSolution =
  returnedTotalLightTime :: real
  linkEndsTimesOutput :: "real or_nan list"
  linkEndsStatesOutput :: "StateType or_nan list"
  lightTimeCalculatorsAfter :: "LightTimeCalculator list"
  multiLegCerr :: "cerr_line list"

text \<open>
  The part of \<^verbatim>\<open>calculateLightTimeWithLinkEndsStates\<close> after the check of the reference
  link end: the initial delay, the two loops, the output vectors (copies of the two
  vectors of \<open>2 * numberOfLinks_\<close> entries that the legs filled).
\<close>

definition walkLegs ::
  "nat \<Rightarrow> externals \<Rightarrow> MultiLegLightTimeCalculator \<Rightarrow> real list \<Rightarrow> real \<Rightarrow> 32 word
     \<Rightarrow> (error + MultiLegLightTimeSolution) option" where
  "walkLegs n K this delays time startLinkEndIndex =
     (case vector_at delays (unat startLinkEndIndex) of
        Inl e \<Rightarrow> Some (Inl e)
      | Inr startDelay \<Rightarrow>
     (case moveBackwards n K delays (unat startLinkEndIndex)
             \<lparr> legStates = replicate (unat (2 * numberOfLinks this)) NaN,
               legTimes = replicate (unat (2 * numberOfLinks this)) NaN,
               legCalculators = lightTimeCalculators this,
               totalLightTime = 0 + startDelay,
               currentLinkEndTime = time - startDelay,
               legCerr = [] \<rparr> of
        None \<Rightarrow> None
      | Some (Inl e) \<Rightarrow> Some (Inl e)
      | Some (Inr w1) \<Rightarrow>
     (case moveForwards n K delays (unat (numberOfLinkEnds this - 1))
             (unat startLinkEndIndex) (w1\<lparr> currentLinkEndTime := time + startDelay \<rparr>) of
        None \<Rightarrow> None
      | Some (Inl e) \<Rightarrow> Some (Inl e)
      | Some (Inr w2) \<Rightarrow>
          Some (Inr \<lparr> returnedTotalLightTime = totalLightTime w2,
                      linkEndsTimesOutput = legTimes w2,
                      linkEndsStatesOutput = legStates w2,
                      lightTimeCalculatorsAfter = legCalculators w2,
                      multiLegCerr = legCerr w2 \<rparr>))))"

text \<open>
  \<^verbatim>\<open>MultiLegLightTimeCalculator::calculateLightTimeWithLinkEndsStates\<close>. The helper
  \<^verbatim>\<open>getNWayLinkIndexFromLinkEndType\<close> is not part of the header and is a parameter; it
  may throw. The first argument is the fuel given to each leg's loop.
\<close>

definition multiLegCalculateLightTimeWithLinkEndsStates ::
  "nat \<Rightarrow> externals \<Rightarrow> ('l \<Rightarrow> 32 word \<Rightarrow> error + 32 word) \<Rightarrow> MultiLegLightTimeCalculator
     \<Rightarrow> real \<Rightarrow> 'l \<Rightarrow> real list option \<Rightarrow> (error + MultiLegLightTimeSolution) option" where
  "multiLegCalculateLightTimeWithLinkEndsStates n K getNWayLinkIndexFromLinkEndType this
       time linkEndAssociatedWithTime ancillarySettings =
     (case currentRetransmissionDelays this ancillarySettings of
        Inl e \<Rightarrow> Some (Inl e)
      | Inr delays \<Rightarrow>
     (case getNWayLinkIndexFromLinkEndType linkEndAssociatedWithTime
             (numberOfLinkEnds this) of
        Inl e \<Rightarrow> Some (Inl e)
      | Inr startLinkEndIndex \<Rightarrow>
     (case referenceLinkEndCheck this delays startLinkEndIndex of
        Inl e \<Rightarrow> Some (Inl e)
      | Inr _ \<Rightarrow> walkLegs n K this delays time startLinkEndIndex)))"

definition getTotalIdealLightTime :: "LightTimeCalculator list \<Rightarrow> real" where
  "getTotalIdealLightTime calculators =
     fold (\<lambda>c lightTime. lightTime + getCurrentIdealLightTime c) calculators 0"

definition getTotalLightTimeCorrections :: "LightTimeCalculator list \<Rightarrow> real" where
  "getTotalLightTimeCorrections calculators =
     fold (\<lambda>c lightTimeCorrections. lightTimeCorrections + getCurrentLightTimeCorrection c)
          calculators 0"

section \<open>Notions used in the statements and proofs\<close>

text \<open>The cache agrees with the last estimate: the estimate is the cached ideal light
  time plus the cached correction, and the cached ideal light time is the distance of
  the current states over the speed of light.\<close>

definition cache_consistent :: "externals \<Rightarrow> solve_state \<Rightarrow> bool" where
  "cache_consistent K s \<longleftrightarrow>
     newLightTimeCalculation s
       = currentIdealLightTime (calculator s) + currentCorrection (calculator s)
   \<and> currentIdealLightTime (calculator s)
       = positionDifferenceNorm (receiverState s) (transmitterState s) / getSpeedOfLight K"

text \<open>Two calculator values that differ at most in the cache.\<close>

definition same_setup :: "LightTimeCalculator \<Rightarrow> LightTimeCalculator \<Rightarrow> bool" where
  "same_setup a b \<longleftrightarrow>
     stateFunctionOfTransmittingBody a = stateFunctionOfTransmittingBody b
   \<and> stateFunctionOfReceivingBody a = stateFunctionOfReceivingBody b
   \<and> correctionFunctions a = correctionFunctions b
   \<and> lightTimeConvergenceCriteria a = lightTimeConvergenceCriteria b"

text \<open>The total correction that a pass of the loop uses: refreshed at the states and times
  the pass finds when the flag \<^verbatim>\<open>updateLightTimeCorrections\<close> is set, the stored one
  otherwise.\<close>

definition correctionInPass :: "solve_state \<Rightarrow> real" where
  "correctionInPass s =
     (if updateLightTimeCorrections s
      then (\<Sum>f\<leftarrow>correctionFunctions (calculator s).
              f (transmitterState s) (receiverState s) (transmissionTime s) (receptionTime s))
      else currentCorrection (calculator s))"

text \<open>The estimate that a pass of the loop computes from the state it finds, before the
  convergence test: the link end that is solved for is moved by the previous estimate,
  and the ideal light time of the two states is added to the correction of the pass.\<close>

definition nextEstimate :: "externals \<Rightarrow> real \<Rightarrow> bool \<Rightarrow> solve_state \<Rightarrow> real" where
  "nextEstimate K time isTimeAtReception s =
     (if isTimeAtReception
      then positionDifferenceNorm (receiverState s)
             (stateFunctionOfTransmittingBody (calculator s)
                (time - previousLightTimeCalculation s))
      else positionDifferenceNorm
             (stateFunctionOfReceivingBody (calculator s)
                (time + previousLightTimeCalculation s))
             (transmitterState s))
       / getSpeedOfLight K
     + correctionInPass s"

text \<open>The ideal light time when the light time solved for is \<open>x\<close>: the link end whose
  time is given stays at \<open>time\<close>, the other one is taken at \<open>time - x\<close> (transmitter) or
  \<open>time + x\<close> (receiver).\<close>

definition idealLightTimeAt ::
  "externals \<Rightarrow> LightTimeCalculator \<Rightarrow> real \<Rightarrow> bool \<Rightarrow> real \<Rightarrow> real" where
  "idealLightTimeAt K this time isTimeAtReception x =
     (if isTimeAtReception
      then positionDifferenceNorm (stateFunctionOfReceivingBody this time)
             (stateFunctionOfTransmittingBody this (time - x))
      else positionDifferenceNorm (stateFunctionOfReceivingBody this (time + x))
             (stateFunctionOfTransmittingBody this time))
     / getSpeedOfLight K"

text \<open>
  The result of a solve is a solution of the light-time equation within the tolerance,
  for the solved light time \<open>x\<close>: the output times are \<open>time\<close> and \<open>time\<close> moved by \<open>x\<close>,
  the output states are the values of the state functions at the output times, the
  returned light time is the ideal light time of these states plus the cached
  correction, and it differs from \<open>x\<close>, the difference of the output times, by less
  than the tolerance.
\<close>

definition solutionWithinTolerance ::
  "externals \<Rightarrow> LightTimeCalculator \<Rightarrow> real \<Rightarrow> bool \<Rightarrow> StateType or_nan list
     \<Rightarrow> real or_nan list \<Rightarrow> nat \<Rightarrow> nat \<Rightarrow> real \<Rightarrow> LightTimeSolution \<Rightarrow> bool" where
  "solutionWithinTolerance K this time isTimeAtReception sts tms ti ri x res \<longleftrightarrow>
     linkEndsTimesAfter res
       = tms[ri := Num (if isTimeAtReception then time else time + x),
             ti := Num (if isTimeAtReception then time - x else time)]
   \<and> linkEndsStatesAfter res
       = sts[ri := Num (stateFunctionOfReceivingBody this
                         (if isTimeAtReception then time else time + x)),
             ti := Num (stateFunctionOfTransmittingBody this
                         (if isTimeAtReception then time - x else time))]
   \<and> returnedLightTime res
       = idealLightTimeAt K this time isTimeAtReception x
         + getCurrentLightTimeCorrection (calculatorAfter res)
   \<and> \<bar>returnedLightTime res - x\<bar>
       < getAbsoluteTolerance K (lightTimeConvergenceCriteria this)"

section \<open>Concrete configurations\<close>

text \<open>The SI speed of light and a default tolerance of \<open>10^-12\<close> seconds.\<close>

definition exampleConstants :: externals where
  "exampleConstants =
     \<lparr> getSpeedOfLight = 299792458, getDefaultLightTimeTolerance = 1 / 10 ^ 12 \<rparr>"

text \<open>A state at rest on the first axis.\<close>

definition stateOnAxis :: "real \<Rightarrow> StateType" where
  "stateOnAxis x = \<lparr> pos1 = x, pos2 = 0, pos3 = 0, vel1 = 0, vel2 = 0, vel3 = 0 \<rparr>"

text \<open>Two link ends at rest, one light second apart.\<close>

definition staticCalculator ::
  "LightTimeCorrectionFunction list \<Rightarrow> LightTimeConvergenceCriteria \<Rightarrow> LightTimeCalculator" where
  "staticCalculator corrections criteria =
     \<lparr> stateFunctionOfTransmittingBody = (\<lambda>t. stateOnAxis 0),
       stateFunctionOfReceivingBody = (\<lambda>t. stateOnAxis 299792458),
       correctionFunctions = corrections,
       lightTimeConvergenceCriteria = criteria,
       currentIdealLightTime = 0,
       currentCorrection = 0 \<rparr>"

text \<open>Tolerance zero, so that no change of the estimate is below it, with each of the
  failure policies.\<close>

definition zeroToleranceCriteria ::
  "int \<Rightarrow> LightTimeFailureHandling \<Rightarrow> LightTimeConvergenceCriteria" where
  "zeroToleranceCriteria maximumNumberOfIterations' failureHandling' =
     \<lparr> iterateCorrections = False, maximumNumberOfIterations = maximumNumberOfIterations',
       failureHandling = failureHandling', absoluteTolerance = Num 0 \<rparr>"

text \<open>The default tolerance and an iteration limit of one, with each of the failure
  policies.\<close>

definition limitOneCriteria :: "LightTimeFailureHandling \<Rightarrow> LightTimeConvergenceCriteria" where
  "limitOneCriteria failureHandling' =
     \<lparr> iterateCorrections = False, maximumNumberOfIterations = 1,
       failureHandling = failureHandling', absoluteTolerance = NaN \<rparr>"

text \<open>A correction that vanishes while both times coincide (the zero-light-time seed)
  and is one second afterwards.\<close>

definition lateCorrection :: LightTimeCorrectionFunction where
  "lateCorrection tS rS tT tR = (if tR - tT = 0 then 0 else 1)"

text \<open>A transmitter that moves along the first axis at half the speed of light towards
  a receiver at rest: the light time received at time 0 is two seconds. The tolerance
  is coarse, so that the iteration stops early. The argument says whether the
  corrections (there are none) are iterated.\<close>

definition approachingCalculator :: "bool \<Rightarrow> LightTimeCalculator" where
  "approachingCalculator iterateCorrections' =
     \<lparr> stateFunctionOfTransmittingBody = (\<lambda>t. stateOnAxis (299792458 * t / 2)),
       stateFunctionOfReceivingBody = (\<lambda>t. stateOnAxis 299792458),
       correctionFunctions = [],
       lightTimeConvergenceCriteria =
         \<lparr> iterateCorrections = iterateCorrections', maximumNumberOfIterations = 50,
           failureHandling = accept_without_warning, absoluteTolerance = Num (3 / 10) \<rparr>,
       currentIdealLightTime = 0,
       currentCorrection = 0 \<rparr>"

text \<open>A receiver that moves away along the first axis at the speed of light from a
  transmitter at rest at the origin; at time 0 it is one light second away.\<close>

definition recedingReceiverCalculator :: LightTimeCalculator where
  "recedingReceiverCalculator =
     \<lparr> stateFunctionOfTransmittingBody = (\<lambda>t. stateOnAxis 0),
       stateFunctionOfReceivingBody = (\<lambda>t. stateOnAxis (299792458 * (1 + t))),
       correctionFunctions = [],
       lightTimeConvergenceCriteria = defaultLightTimeConvergenceCriteria,
       currentIdealLightTime = 0,
       currentCorrection = 0 \<rparr>"

text \<open>The two errors that the spec calls configuration errors.\<close>

fun is_configuration_error :: "error \<Rightarrow> bool" where
  "is_configuration_error (InvalidRetransmissionDelaysSize k) = True"
| "is_configuration_error NonZeroDelayAtReferenceLinkEnd = True"
| "is_configuration_error e = False"

text \<open>A chain of two legs over three link ends at rest, each leg one light second long,
  and a stand-in for \<^verbatim>\<open>getNWayLinkIndexFromLinkEndType\<close> that takes the link end by its
  index.\<close>

definition twoLegCalculator :: MultiLegLightTimeCalculator where
  "twoLegCalculator =
     newMultiLegLightTimeCalculator
       [staticCalculator [] defaultLightTimeConvergenceCriteria,
        staticCalculator [] defaultLightTimeConvergenceCriteria]
       defaultLightTimeConvergenceCriteria"

definition linkEndByIndex :: "32 word \<Rightarrow> 32 word \<Rightarrow> error + 32 word" where
  "linkEndByIndex linkEnd numberOfLinkEnds' = Inr linkEnd"

section \<open>Basic facts about the solve\<close>

lemma fold_plus_sum_list:
  "fold (\<lambda>f (total::real). total + g f) fs a = a + sum_list (map g fs)"
  by (induction fs arbitrary: a) simp_all

lemma currentCorrection_setTotal:
  "currentCorrection (setTotalLightTimeCorrection this tS rS tT tR)
     = (\<Sum>f\<leftarrow>correctionFunctions this. f tS rS tT tR)"
  by (simp add: setTotalLightTimeCorrection_def fold_plus_sum_list)

lemma positionDifferenceNorm_stateOnAxis [simp]:
  "positionDifferenceNorm (stateOnAxis a) (stateOnAxis b) = \<bar>a - b\<bar>"
  by (simp add: positionDifferenceNorm_def stateOnAxis_def)

lemmas solve_defs =
  calculateLightTimeWithMultiLegLinkEndsStates_def initialGuess_def initialState_def
  setOutput_def vector_at_def vector_assign_at_def size_minus_one_def loopBody_def
  isLightTimeSolutionConverged_def getAbsoluteTolerance_def
  calculateNewLightTimeEstimate_def setTotalLightTimeCorrection_def Let_def

lemmas example_defs =
  exampleConstants_def staticCalculator_def zeroToleranceCriteria_def
  defaultLightTimeConvergenceCriteria_def lateCorrection_def approachingCalculator_def limitOneCriteria_def
  recedingReceiverCalculator_def

lemmas multi_leg_defs =
  multiLegCalculateLightTimeWithLinkEndsStates_def currentRetransmissionDelays_def
  referenceLinkEndCheck_def walkLegs_def solveLeg_def newMultiLegLightTimeCalculator_def
  twoLegCalculator_def linkEndByIndex_def

lemma unat_succ_neq: "unat (i + 1) \<noteq> unat (i :: 32 word)"
proof
  assume "unat (i + 1) = unat i"
  then have "i + 1 = i" by (simp only: word_unat_eq_iff [symmetric])
  then show False by simp
qed

lemma whileLoop_reached:
  "isToleranceReached s \<Longrightarrow> whileLoop n K time r s = Some (Inr s)"
  by (cases n) simp_all

text \<open>Fuel only decides whether the end of the loop is seen: more fuel does not change
  an outcome.\<close>

lemma whileLoop_more_fuel:
  "whileLoop n K time r s = Some x \<Longrightarrow> whileLoop (n + k) K time r s = Some x"
proof (induction n arbitrary: s)
  case 0
  then show ?case by (simp add: whileLoop_reached split: if_splits)
next
  case (Suc n)
  then show ?case by (auto split: if_splits sum.splits)
qed

text \<open>An invariant of the loop body holds when the loop ends.\<close>

lemma whileLoop_rule:
  assumes "whileLoop n K time r s = Some (Inr s')"
    and "I s"
    and "\<And>a b. I a \<Longrightarrow> \<not> isToleranceReached a \<Longrightarrow> loopBody K time r a = Inr b \<Longrightarrow> I b"
  shows "I s'"
  using assms(1,2)
proof (induction n arbitrary: s)
  case 0
  then show ?case by (auto split: if_splits)
next
  case (Suc n)
  show ?case
  proof (cases "isToleranceReached s")
    case True
    with Suc.prems show ?thesis by simp
  next
    case False
    with Suc.prems(1) obtain s1 where b: "loopBody K time r s = Inr s1"
      and w: "whileLoop n K time r s1 = Some (Inr s')"
      by (auto split: sum.splits)
    from assms(3) [OF Suc.prems(2) False b] have "I s1" .
    with w show ?thesis by (rule Suc.IH)
  qed
qed

text \<open>What every pass establishes holds at the end of a loop that made a pass.\<close>

lemma whileLoop_after_pass:
  assumes "whileLoop n K time r s = Some (Inr s')"
    and "\<not> isToleranceReached s"
    and "\<And>a b. loopBody K time r a = Inr b \<Longrightarrow> P b"
  shows "P s'"
proof -
  have "isToleranceReached s' \<longrightarrow> P s'"
    by (rule whileLoop_rule [OF assms(1), where I = "\<lambda>x. isToleranceReached x \<longrightarrow> P x"])
       (use assms(2,3) in auto)
  moreover have "isToleranceReached s'"
    using assms(1)
  proof (induction n arbitrary: s)
    case 0
    then show ?case by (auto split: if_splits)
  next
    case (Suc n)
    then show ?case by (auto split: if_splits sum.splits)
  qed
  ultimately show ?thesis by simp
qed

lemma loopBody_cache_consistent:
  assumes "loopBody K time r s = Inr s'"
  shows "cache_consistent K s'"
  using assms
  by (auto simp: loopBody_def Let_def cache_consistent_def calculateNewLightTimeEstimate_def
      split: sum.splits prod.splits if_splits)

lemma initialState_fields:
  "isToleranceReached (initialState K this rt tt) = False"
  "calculator (initialState K this rt tt)
     = (setTotalLightTimeCorrection this (stateFunctionOfTransmittingBody this tt)
          (stateFunctionOfReceivingBody this rt) tt rt)
        \<lparr> currentIdealLightTime :=
            positionDifferenceNorm (stateFunctionOfReceivingBody this rt)
              (stateFunctionOfTransmittingBody this tt) / getSpeedOfLight K \<rparr>"
  "updateLightTimeCorrections (initialState K this rt tt)
     = iterateCorrections (lightTimeConvergenceCriteria this)"
  "counter (initialState K this rt tt) = 0"
  "receptionTime (initialState K this rt tt) = rt"
  "transmissionTime (initialState K this rt tt) = tt"
  "receiverState (initialState K this rt tt) = stateFunctionOfReceivingBody this rt"
  "transmitterState (initialState K this rt tt) = stateFunctionOfTransmittingBody this tt"
  "previousLightTimeCalculation (initialState K this rt tt)
     = positionDifferenceNorm (stateFunctionOfReceivingBody this rt)
              (stateFunctionOfTransmittingBody this tt) / getSpeedOfLight K
       + (\<Sum>f\<leftarrow>correctionFunctions this. f (stateFunctionOfTransmittingBody this tt)
          (stateFunctionOfReceivingBody this rt) tt rt)"
  "newLightTimeCalculation (initialState K this rt tt) = 0"
  "cerr (initialState K this rt tt) = []"
  by (simp_all add: initialState_def Let_def calculateNewLightTimeEstimate_def
      setTotalLightTimeCorrection_def fold_plus_sum_list)

lemma loopBody_same_setup:
  "loopBody K time r s = Inr s' \<Longrightarrow> same_setup (calculator s') (calculator s)"
  by (auto simp: loopBody_def Let_def same_setup_def calculateNewLightTimeEstimate_def
      setTotalLightTimeCorrection_def split: sum.splits prod.splits if_splits)

lemma initialState_same_setup:
  "same_setup (calculator (initialState K this rt tt)) this"
  by (simp add: initialState_fields same_setup_def setTotalLightTimeCorrection_def)

lemma whileLoop_cache_consistent:
  assumes "whileLoop n K time r s = Some (Inr s')" "\<not> isToleranceReached s"
  shows "cache_consistent K s'"
  using assms loopBody_cache_consistent by (rule whileLoop_after_pass)

text \<open>A solve that returns has passed the size check, found an initial guess, ended its
  loop and written its output.\<close>

lemma solve_returns_cases:
  assumes "calculateLightTimeWithMultiLegLinkEndsStates n K this sts tms time r idx
             = Some (Inr res)"
  obtains rt tt s where
    "initialGuess tms time (unat idx) (unat (idx + 1)) = Inr (rt, tt)"
    "whileLoop n K time r (initialState K this rt tt) = Some (Inr s)"
    "setOutput sts tms (unat idx) (unat (idx + 1)) s = Inr res"
  using assms
  by (auto simp: calculateLightTimeWithMultiLegLinkEndsStates_def Let_def
      split: if_splits sum.splits option.splits prod.splits)

lemma setOutput_fields:
  assumes "setOutput sts tms ti ri s = Inr res"
  shows "returnedLightTime res = newLightTimeCalculation s"
    "calculatorAfter res = calculator s"
    "cerrAfter res = cerr s @ [LightTimeLine (newLightTimeCalculation s)]"
    "linkEndsTimesAfter res = tms[ri := Num (receptionTime s), ti := Num (transmissionTime s)]"
    "linkEndsStatesAfter res = sts[ri := Num (receiverState s), ti := Num (transmitterState s)]"
    "ri < length tms" "ti < length tms" "ri < length sts" "ti < length sts"
  using assms
  by (auto simp: setOutput_def vector_assign_at_def split: if_splits)

lemma size_check_passes:
  assumes "length sts = length tms" "unat (idx + 1) < length tms"
  shows "\<not> (length sts \<noteq> length tms \<or> unat (idx + 1) > size_minus_one tms)"
  using assms by (auto simp: size_minus_one_def)

lemma initialGuess_in_range:
  assumes "ti < length tms" "ri < length tms"
  obtains rt tt where "initialGuess tms time ti ri = Inr (rt, tt)"
proof (cases "tms ! ti")
  case NaN
  with assms have "initialGuess tms time ti ri = Inr (time, time)"
    by (simp add: initialGuess_def vector_at_def)
  then show ?thesis by (rule that)
next
  case t: (Num transmissionGuess)
  show ?thesis
  proof (cases "tms ! ri")
    case NaN
    with t assms have "initialGuess tms time ti ri = Inr (time, time)"
      by (simp add: initialGuess_def vector_at_def)
    then show ?thesis by (rule that)
  next
    case (Num receptionGuess)
    with t assms have "initialGuess tms time ti ri = Inr (receptionGuess, transmissionGuess)"
      by (simp add: initialGuess_def vector_at_def)
    then show ?thesis by (rule that)
  qed
qed

lemma setOutput_in_range:
  assumes "length sts = length tms" "ti < length tms" "ri < length tms"
  obtains res where "setOutput sts tms ti ri s = Inr res"
  using assms by (simp add: setOutput_def vector_assign_at_def)

lemma solve_more_fuel:
  assumes "calculateLightTimeWithMultiLegLinkEndsStates n K this sts tms time r idx = Some x"
  shows "calculateLightTimeWithMultiLegLinkEndsStates (n + k) K this sts tms time r idx
           = Some x"
  using assms
  by (auto simp: calculateLightTimeWithMultiLegLinkEndsStates_def Let_def
      simp del: whileLoop.simps
      split: if_splits sum.splits option.splits prod.splits
      dest: whileLoop_more_fuel [where k = k])

section \<open>The tolerance of the convergence criteria\<close>

text \<open>
  C9. \<^verbatim>\<open>getAbsoluteTolerance\<close> returns the configured tolerance when one was set (the
  member is not a NaN) and the default tolerance otherwise. The model of the method is
  a function of the criteria and of the default alone: it returns a value and changes
  nothing.
\<close>

theorem getAbsoluteTolerance_explicit_or_default:
  "(absoluteTolerance criteria = Num tol \<longrightarrow> getAbsoluteTolerance K criteria = tol)
   \<and> (absoluteTolerance criteria = NaN
        \<longrightarrow> getAbsoluteTolerance K criteria = getDefaultLightTimeTolerance K)"
  by (simp add: getAbsoluteTolerance_def)

theorem getAbsoluteTolerance_explicit_or_default_witness:
  "getAbsoluteTolerance exampleConstants (zeroToleranceCriteria 50 throw_exception) = 0
   \<and> getAbsoluteTolerance exampleConstants defaultLightTimeConvergenceCriteria = 1 / 10 ^ 12"
proof -
  have a: "absoluteTolerance (zeroToleranceCriteria 50 throw_exception) = Num 0"
    by (simp add: zeroToleranceCriteria_def)
  have b: "absoluteTolerance defaultLightTimeConvergenceCriteria = NaN"
    by (simp add: defaultLightTimeConvergenceCriteria_def)
  have c: "getDefaultLightTimeTolerance exampleConstants = 1 / 10 ^ 12"
    by (simp add: exampleConstants_def)
  from getAbsoluteTolerance_explicit_or_default
         [of "zeroToleranceCriteria 50 throw_exception" 0 exampleConstants] a
  have "getAbsoluteTolerance exampleConstants (zeroToleranceCriteria 50 throw_exception) = 0"
    by blast
  moreover
  from getAbsoluteTolerance_explicit_or_default
         [of defaultLightTimeConvergenceCriteria 0 exampleConstants] b
  have "getAbsoluteTolerance exampleConstants defaultLightTimeConvergenceCriteria
          = getDefaultLightTimeTolerance exampleConstants"
    by blast
  ultimately show ?thesis using c by simp
qed

section \<open>The returned light time and the cache\<close>

text \<open>
  C10. When a single-leg solve returns, the returned light time is the sum of the cached
  ideal light time and the cached total correction, as the two getters read them from
  the calculator right after the call.
\<close>

theorem returned_light_time_is_cached_sum:
  assumes "calculateLightTimeWithMultiLegLinkEndsStates n K this linkEndsStates linkEndsTimes
             time isTimeAtReception multiLegTransmitterIndex = Some (Inr res)"
  shows "returnedLightTime res
           = getCurrentIdealLightTime (calculatorAfter res)
             + getCurrentLightTimeCorrection (calculatorAfter res)"
proof -
  from assms obtain rt tt s where
    loop: "whileLoop n K time isTimeAtReception (initialState K this rt tt) = Some (Inr s)"
    and out: "setOutput linkEndsStates linkEndsTimes (unat multiLegTransmitterIndex)
                (unat (multiLegTransmitterIndex + 1)) s = Inr res"
    by (rule solve_returns_cases)
  have "cache_consistent K s"
    using loop by (rule whileLoop_cache_consistent) (simp add: initialState_fields)
  then show ?thesis
    by (simp add: setOutput_fields [OF out] cache_consistent_def
        getCurrentIdealLightTime_def getCurrentLightTimeCorrection_def)
qed

theorem returned_light_time_is_cached_sum_witness:
  "\<exists>res. calculateLightTimeWithMultiLegLinkEndsStates 2 exampleConstants
            (staticCalculator [lateCorrection] (zeroToleranceCriteria 1 accept_without_warning))
            [NaN, NaN] [NaN, NaN] 0 True 0 = Some (Inr res)
         \<and> returnedLightTime res = 1
         \<and> returnedLightTime res
             = getCurrentIdealLightTime (calculatorAfter res)
               + getCurrentLightTimeCorrection (calculatorAfter res)"
proof -
  have "\<exists>res. calculateLightTimeWithMultiLegLinkEndsStates 2 exampleConstants
            (staticCalculator [lateCorrection] (zeroToleranceCriteria 1 accept_without_warning))
            [NaN, NaN] [NaN, NaN] 0 True 0 = Some (Inr res)
         \<and> returnedLightTime res = 1"
    by (simp add: solve_defs example_defs numeral_2_eq_2)
  then obtain res where
    r: "calculateLightTimeWithMultiLegLinkEndsStates 2 exampleConstants
            (staticCalculator [lateCorrection] (zeroToleranceCriteria 1 accept_without_warning))
            [NaN, NaN] [NaN, NaN] 0 True 0 = Some (Inr res)"
    and v: "returnedLightTime res = 1"
    by blast
  from returned_light_time_is_cached_sum [OF r] r v show ?thesis by blast
qed

section \<open>The total correction\<close>

lemma loopBody_constant_corrections:
  assumes "loopBody K time r s = Inr s'"
    and "\<And>tS rS tT tR. (\<Sum>f\<leftarrow>correctionFunctions (calculator s). f tS rS tT tR) = v"
    and "currentCorrection (calculator s) = v"
  shows "currentCorrection (calculator s') = v"
  using assms
  by (auto simp: loopBody_def Let_def calculateNewLightTimeEstimate_def
      currentCorrection_setTotal split: sum.splits prod.splits if_splits)

text \<open>
  C7. The total correction that \<^verbatim>\<open>setTotalLightTimeCorrection\<close> stores for a pair of
  states and times is the plain sum of the values of the registered correction
  functions. Consequently, with two constant correction functions \<open>a\<close> and \<open>b\<close>, the
  light time that a solve returns is the ideal light time (the distance of the two
  output states over the speed of light, which is also the cached ideal light time)
  plus \<open>a + b\<close>.
\<close>

theorem total_correction_is_plain_sum:
  "currentCorrection (setTotalLightTimeCorrection this transmitterState' receiverState'
       transmissionTime' receptionTime')
     = (\<Sum>f\<leftarrow>correctionFunctions this.
          f transmitterState' receiverState' transmissionTime' receptionTime')
   \<and> (correctionFunctions this = [\<lambda>tS rS tT tR. a, \<lambda>tS rS tT tR. b]
        \<longrightarrow> calculateLightTimeWithMultiLegLinkEndsStates n K this linkEndsStates
              linkEndsTimes time isTimeAtReception multiLegTransmitterIndex = Some (Inr res)
        \<longrightarrow> returnedLightTime res = getCurrentIdealLightTime (calculatorAfter res) + (a + b)
            \<and> (\<exists>rS tS. linkEndsStatesAfter res ! unat (multiLegTransmitterIndex + 1) = Num rS
                  \<and> linkEndsStatesAfter res ! unat multiLegTransmitterIndex = Num tS
                  \<and> getCurrentIdealLightTime (calculatorAfter res)
                      = positionDifferenceNorm rS tS / getSpeedOfLight K))"
proof (intro conjI impI)
  show "currentCorrection (setTotalLightTimeCorrection this transmitterState' receiverState'
       transmissionTime' receptionTime')
     = (\<Sum>f\<leftarrow>correctionFunctions this.
          f transmitterState' receiverState' transmissionTime' receptionTime')"
    by (rule currentCorrection_setTotal)
next
  assume cf: "correctionFunctions this = [\<lambda>tS rS tT tR. a, \<lambda>tS rS tT tR. b]"
    and ret: "calculateLightTimeWithMultiLegLinkEndsStates n K this linkEndsStates
              linkEndsTimes time isTimeAtReception multiLegTransmitterIndex = Some (Inr res)"
  from ret obtain rt tt s where
    loop: "whileLoop n K time isTimeAtReception (initialState K this rt tt) = Some (Inr s)"
    and out: "setOutput linkEndsStates linkEndsTimes (unat multiLegTransmitterIndex)
                (unat (multiLegTransmitterIndex + 1)) s = Inr res"
    by (rule solve_returns_cases)
  let ?s0 = "initialState K this rt tt"
  let ?I = "\<lambda>x. same_setup (calculator x) this \<and> currentCorrection (calculator x) = a + b"
  have I0: "?I ?s0"
    by (simp add: initialState_same_setup)
       (simp add: initialState_fields currentCorrection_setTotal cf)
  have Is: "?I s"
  proof (rule whileLoop_rule [OF loop, where I = ?I, OF I0])
    fix x y
    assume x: "?I x" and body: "loopBody K time isTimeAtReception x = Inr y"
    from x have cfx: "correctionFunctions (calculator x) = [\<lambda>tS rS tT tR. a, \<lambda>tS rS tT tR. b]"
      by (simp add: same_setup_def cf)
    have "currentCorrection (calculator y) = a + b"
      by (rule loopBody_constant_corrections [OF body]) (use x cfx in simp_all)
    moreover have "same_setup (calculator y) this"
      using loopBody_same_setup [OF body] x by (simp add: same_setup_def)
    ultimately show "?I y" by simp
  qed
  have cc: "cache_consistent K s"
    using loop by (rule whileLoop_cache_consistent) (simp add: initialState_fields)
  note o = setOutput_fields [OF out]
  show "returnedLightTime res = getCurrentIdealLightTime (calculatorAfter res) + (a + b)"
    using cc Is by (simp add: o cache_consistent_def getCurrentIdealLightTime_def)
  have "linkEndsStatesAfter res ! unat (multiLegTransmitterIndex + 1) = Num (receiverState s)"
    using o(8) unat_succ_neq [of multiLegTransmitterIndex] by (simp add: o(5))
  moreover
  have "linkEndsStatesAfter res ! unat multiLegTransmitterIndex = Num (transmitterState s)"
    using o(9) by (simp add: o(5))
  moreover
  have "getCurrentIdealLightTime (calculatorAfter res)
          = positionDifferenceNorm (receiverState s) (transmitterState s) / getSpeedOfLight K"
    using cc by (simp add: o cache_consistent_def getCurrentIdealLightTime_def)
  ultimately
  show "\<exists>rS tS. linkEndsStatesAfter res ! unat (multiLegTransmitterIndex + 1) = Num rS
                  \<and> linkEndsStatesAfter res ! unat multiLegTransmitterIndex = Num tS
                  \<and> getCurrentIdealLightTime (calculatorAfter res)
                      = positionDifferenceNorm rS tS / getSpeedOfLight K"
    by blast
qed

theorem total_correction_is_plain_sum_witness:
  "\<exists>res. calculateLightTimeWithMultiLegLinkEndsStates 2 exampleConstants
            (staticCalculator [\<lambda>tS rS tT tR. 1 / 1000, \<lambda>tS rS tT tR. 2 / 1000]
               defaultLightTimeConvergenceCriteria)
            [NaN, NaN] [NaN, NaN] 0 True 0 = Some (Inr res)
         \<and> returnedLightTime res = 1003 / 1000
         \<and> returnedLightTime res
             = getCurrentIdealLightTime (calculatorAfter res) + (1 / 1000 + 2 / 1000)"
proof -
  let ?calc = "staticCalculator [\<lambda>tS rS tT tR. 1 / 1000, \<lambda>tS rS tT tR. 2 / 1000]
               defaultLightTimeConvergenceCriteria"
  have "\<exists>res. calculateLightTimeWithMultiLegLinkEndsStates 2 exampleConstants ?calc
            [NaN, NaN] [NaN, NaN] 0 True 0 = Some (Inr res)
         \<and> returnedLightTime res = 1003 / 1000"
    by (simp add: solve_defs example_defs numeral_2_eq_2)
  then obtain res where
    r: "calculateLightTimeWithMultiLegLinkEndsStates 2 exampleConstants ?calc
            [NaN, NaN] [NaN, NaN] 0 True 0 = Some (Inr res)"
    and v: "returnedLightTime res = 1003 / 1000"
    by blast
  have cf: "correctionFunctions ?calc = [\<lambda>tS rS tT tR. 1 / 1000, \<lambda>tS rS tT tR. 2 / 1000]"
    by (simp add: staticCalculator_def)
  from total_correction_is_plain_sum
         [of ?calc _ _ _ _ "1 / 1000" "2 / 1000" 2 exampleConstants
             "[NaN, NaN]" "[NaN, NaN]" 0 True 0 res] cf r
  have "returnedLightTime res
          = getCurrentIdealLightTime (calculatorAfter res) + (1 / 1000 + 2 / 1000)"
    by blast
  with r v show ?thesis by blast
qed

section \<open>Link ends at rest\<close>

text \<open>One pass of the loop when both state functions are constant, no correction is
  registered and the tolerance is positive: the estimate repeats, so the pass either
  arms the extra iteration or ends the loop.\<close>

lemma loopBody_static:
  assumes "\<And>t. stateFunctionOfTransmittingBody (calculator s) t = sT"
    and "\<And>t. stateFunctionOfReceivingBody (calculator s) t = sR"
    and "correctionFunctions (calculator s) = []"
    and "0 < getAbsoluteTolerance K (lightTimeConvergenceCriteria (calculator s))"
    and "transmitterState s = sT" "receiverState s = sR"
    and "currentCorrection (calculator s) = 0"
    and "previousLightTimeCalculation s = positionDifferenceNorm sR sT / getSpeedOfLight K"
  shows "\<exists>s'. loopBody K time r s = Inr s'
      \<and> same_setup (calculator s') (calculator s)
      \<and> transmitterState s' = sT \<and> receiverState s' = sR
      \<and> currentCorrection (calculator s') = 0
      \<and> previousLightTimeCalculation s' = positionDifferenceNorm sR sT / getSpeedOfLight K
      \<and> newLightTimeCalculation s' = positionDifferenceNorm sR sT / getSpeedOfLight K
      \<and> updateLightTimeCorrections s'
      \<and> (isToleranceReached s' \<longleftrightarrow> updateLightTimeCorrections s)"
  using assms
  by (simp add: loopBody_def Let_def calculateNewLightTimeEstimate_def
      setTotalLightTimeCorrection_def isLightTimeSolutionConverged_def same_setup_def)

lemma whileLoop_static:
  assumes "\<And>t. stateFunctionOfTransmittingBody this t = sT"
    and "\<And>t. stateFunctionOfReceivingBody this t = sR"
    and "correctionFunctions this = []"
    and "0 < getAbsoluteTolerance K (lightTimeConvergenceCriteria this)"
  shows "\<exists>s. whileLoop (Suc (Suc n)) K time r (initialState K this rt tt) = Some (Inr s)
           \<and> newLightTimeCalculation s = positionDifferenceNorm sR sT / getSpeedOfLight K"
proof -
  let ?s0 = "initialState K this rt tt"
  let ?D = "positionDifferenceNorm sR sT / getSpeedOfLight K"
  have c0: "same_setup (calculator ?s0) this" by (rule initialState_same_setup)
  have nr: "\<not> isToleranceReached ?s0" by (simp add: initialState_fields)
  obtain s1 where b1: "loopBody K time r ?s0 = Inr s1"
    and c1: "same_setup (calculator s1) (calculator ?s0)"
    and f1: "transmitterState s1 = sT" "receiverState s1 = sR"
      "currentCorrection (calculator s1) = 0" "previousLightTimeCalculation s1 = ?D"
      "newLightTimeCalculation s1 = ?D" "updateLightTimeCorrections s1"
    using loopBody_static [of ?s0 sT sR K time r] assms c0
    by (auto simp: same_setup_def initialState_fields currentCorrection_setTotal)
  show ?thesis
  proof (cases "isToleranceReached s1")
    case True
    then show ?thesis using nr b1 f1 by simp
  next
    case False
    obtain s2 where b2: "loopBody K time r s1 = Inr s2"
      and f2: "newLightTimeCalculation s2 = ?D" "isToleranceReached s2"
      using loopBody_static [of s1 sT sR K time r] assms c0 c1 f1
      by (auto simp: same_setup_def)
    show ?thesis using nr b1 False b2 f2 by (simp add: whileLoop_reached)
  qed
qed

text \<open>
  C8, as the code has it. For two state functions that are constant in time, an empty
  correction list and a tolerance greater than zero, a single-leg solve on vectors
  that hold both link ends returns after at most two passes of the loop, and the light
  time it returns is the distance of the two positions over the speed of light
  (exactly, so within every positive tolerance).
\<close>

theorem static_vacuum_light_time:
  assumes "\<And>t. stateFunctionOfTransmittingBody this t = sT"
    and "\<And>t. stateFunctionOfReceivingBody this t = sR"
    and "correctionFunctions this = []"
    and "0 < getAbsoluteTolerance K (lightTimeConvergenceCriteria this)"
    and "length linkEndsStates = length linkEndsTimes"
    and "unat multiLegTransmitterIndex < length linkEndsTimes"
    and "unat (multiLegTransmitterIndex + 1) < length linkEndsTimes"
  shows "\<exists>res. calculateLightTimeWithMultiLegLinkEndsStates (Suc (Suc n)) K this
                  linkEndsStates linkEndsTimes time isTimeAtReception
                  multiLegTransmitterIndex = Some (Inr res)
           \<and> returnedLightTime res = positionDifferenceNorm sR sT / getSpeedOfLight K"
proof -
  obtain rt tt where g: "initialGuess linkEndsTimes time (unat multiLegTransmitterIndex)
      (unat (multiLegTransmitterIndex + 1)) = Inr (rt, tt)"
    using assms(6,7) by (rule initialGuess_in_range)
  obtain s where w: "whileLoop (Suc (Suc n)) K time isTimeAtReception (initialState K this rt tt)
       = Some (Inr s)"
    and v: "newLightTimeCalculation s = positionDifferenceNorm sR sT / getSpeedOfLight K"
    using whileLoop_static [OF assms(1-4)] by blast
  obtain res where o: "setOutput linkEndsStates linkEndsTimes (unat multiLegTransmitterIndex)
      (unat (multiLegTransmitterIndex + 1)) s = Inr res"
    using assms(5-7) by (rule setOutput_in_range)
  have "calculateLightTimeWithMultiLegLinkEndsStates (Suc (Suc n)) K this
                  linkEndsStates linkEndsTimes time isTimeAtReception
                  multiLegTransmitterIndex = Some (Inr res)"
    unfolding calculateLightTimeWithMultiLegLinkEndsStates_def Let_def
    using size_check_passes [OF assms(5,7)] g w o by (simp del: whileLoop.simps)
  then show ?thesis using v setOutput_fields(1) [OF o] by simp
qed

theorem static_vacuum_light_time_witness:
  "\<exists>res. calculateLightTimeWithMultiLegLinkEndsStates (Suc (Suc 0)) exampleConstants
            (staticCalculator [] defaultLightTimeConvergenceCriteria)
            [NaN, NaN] [NaN, NaN] 10 True 0 = Some (Inr res)
         \<and> returnedLightTime res = 1"
proof -
  let ?calc = "staticCalculator [] defaultLightTimeConvergenceCriteria"
  have h: "\<And>t. stateFunctionOfTransmittingBody ?calc t = stateOnAxis 0"
    "\<And>t. stateFunctionOfReceivingBody ?calc t = stateOnAxis 299792458"
    "correctionFunctions ?calc = []"
    "0 < getAbsoluteTolerance exampleConstants (lightTimeConvergenceCriteria ?calc)"
    "length [NaN :: StateType or_nan, NaN] = length [NaN :: real or_nan, NaN]"
    "unat (0 :: 32 word) < length [NaN :: real or_nan, NaN]"
    "unat (0 + 1 :: 32 word) < length [NaN :: real or_nan, NaN]"
    by (simp_all add: example_defs getAbsoluteTolerance_def)
  have d: "positionDifferenceNorm (stateOnAxis 299792458) (stateOnAxis 0)
             / getSpeedOfLight exampleConstants = 1"
    by (simp add: exampleConstants_def)
  from static_vacuum_light_time [of ?calc, OF h, of 0 10 True] d
  show ?thesis by simp
qed

text \<open>C8, as stated, fails for a tolerance of zero: the estimate of two link ends at rest
  repeats, its change is never below the tolerance, and with \<^verbatim>\<open>throw_exception\<close> and an
  iteration limit of zero the first pass throws instead of returning the light time.\<close>

theorem static_vacuum_zero_tolerance_counterexample:
  "calculateLightTimeWithMultiLegLinkEndsStates 1 exampleConstants
     (staticCalculator [] (zeroToleranceCriteria 0 throw_exception))
     [NaN, NaN] [NaN, NaN] 10 True 0
   = Some (Inl (LightTimeUnconverged 0 0 10))"
  by (simp add: solve_defs example_defs)

section \<open>The failure policy \<^verbatim>\<open>print_warning_and_accept\<close>\<close>

text \<open>
  With a tolerance that is not positive the convergence test never succeeds. Under
  \<^verbatim>\<open>print_warning_and_accept\<close> the branch of the switch prints and leaves
  \<^verbatim>\<open>isToleranceReached\<close> false, so no pass ends the loop, whatever the iteration
  limit.
\<close>

text \<open>What the convergence test does when the change is not below the tolerance and the
  iteration count equals the limit, for each policy: it accepts in silence, it prints
  and does not accept, it throws.\<close>

lemma failure_policy_at_limit:
  assumes "\<not> \<bar>new - previous\<bar> < getAbsoluteTolerance K criteria"
    and "numberOfIterations = maximumNumberOfIterations criteria"
  shows "failureHandling criteria = accept_without_warning
           \<Longrightarrow> isLightTimeSolutionConverged K criteria previous new numberOfIterations
                 correction time update = Inr (True, update, [])"
    and "failureHandling criteria = print_warning_and_accept
           \<Longrightarrow> isLightTimeSolutionConverged K criteria previous new numberOfIterations
                 correction time update
               = Inr (False, update, [Warning \<bar>new - previous\<bar> correction time])"
    and "failureHandling criteria = throw_exception
           \<Longrightarrow> isLightTimeSolutionConverged K criteria previous new numberOfIterations
                 correction time update
               = Inl (LightTimeUnconverged \<bar>new - previous\<bar> correction time)"
  using assms by (simp_all add: isLightTimeSolutionConverged_def)

lemma loopBody_warn_continues:
  assumes "getAbsoluteTolerance K (lightTimeConvergenceCriteria (calculator s)) \<le> 0"
    and "failureHandling (lightTimeConvergenceCriteria (calculator s))
           = print_warning_and_accept"
  shows "\<exists>s'. loopBody K time r s = Inr s' \<and> \<not> isToleranceReached s'
           \<and> lightTimeConvergenceCriteria (calculator s')
               = lightTimeConvergenceCriteria (calculator s)"
proof -
  have never: "\<not> \<bar>x\<bar> < getAbsoluteTolerance K (lightTimeConvergenceCriteria (calculator s))"
    for x :: real
    using assms(1) by linarith
  show ?thesis
    using assms(2)
    by (simp add: loopBody_def Let_def calculateNewLightTimeEstimate_def
        setTotalLightTimeCorrection_def isLightTimeSolutionConverged_def never)
qed

lemma whileLoop_warn_never_ends:
  assumes "getAbsoluteTolerance K (lightTimeConvergenceCriteria (calculator s)) \<le> 0"
    and "failureHandling (lightTimeConvergenceCriteria (calculator s))
           = print_warning_and_accept"
    and "\<not> isToleranceReached s"
  shows "whileLoop n K time r s = None"
  using assms
proof (induction n arbitrary: s)
  case 0
  then show ?case by simp
next
  case (Suc n)
  from loopBody_warn_continues [OF Suc.prems(1,2), of time r]
  obtain s' where b: "loopBody K time r s = Inr s'" and nr: "\<not> isToleranceReached s'"
    and c: "lightTimeConvergenceCriteria (calculator s')
              = lightTimeConvergenceCriteria (calculator s)"
    by blast
  have "whileLoop n K time r s' = None"
    by (rule Suc.IH) (use Suc.prems c nr in simp_all)
  with b Suc.prems(3) show ?case by simp
qed

lemma solve_warn_never_returns:
  assumes "getAbsoluteTolerance K (lightTimeConvergenceCriteria this) \<le> 0"
    and "failureHandling (lightTimeConvergenceCriteria this) = print_warning_and_accept"
  shows "calculateLightTimeWithMultiLegLinkEndsStates n K this [NaN, NaN] [NaN, NaN]
           time r 0 = None"
proof -
  let ?s0 = "initialState K this time time"
  have c: "lightTimeConvergenceCriteria (calculator ?s0) = lightTimeConvergenceCriteria this"
    using initialState_same_setup [of K this time time] by (simp add: same_setup_def)
  have "whileLoop n K time r ?s0 = None"
    by (rule whileLoop_warn_never_ends) (use assms c in \<open>simp_all add: initialState_fields\<close>)
  then show ?thesis
    by (simp add: calculateLightTimeWithMultiLegLinkEndsStates_def Let_def initialGuess_def
        vector_at_def size_minus_one_def del: whileLoop.simps)
qed

text \<open>
  C1, at a failing input: two link ends at rest, no corrections, tolerance zero,
  \<^verbatim>\<open>maximumNumberOfIterations_ = 0\<close> and \<^verbatim>\<open>print_warning_and_accept\<close>. The first pass
  finds the iteration count at the limit with the change not below the tolerance; it
  prints the warning (residual 0, correction 0, time 10) but does not set
  \<^verbatim>\<open>isToleranceReached\<close>, and the solve returns for no amount of fuel, where the claim
  has it return the current estimate.
\<close>

theorem print_warning_and_accept_does_not_accept:
  "map_sum id (\<lambda>s. (isToleranceReached s, counter s, cerr s))
     (loopBody exampleConstants 10 True
        (initialState exampleConstants
           (staticCalculator [] (zeroToleranceCriteria 0 print_warning_and_accept)) 10 10))
     = Inr (False, 1, [Warning 0 0 10])
   \<and> (\<forall>n. calculateLightTimeWithMultiLegLinkEndsStates n exampleConstants
            (staticCalculator [] (zeroToleranceCriteria 0 print_warning_and_accept))
            [NaN, NaN] [NaN, NaN] 10 True 0 = None)"
proof (intro conjI allI)
  show "map_sum id (\<lambda>s. (isToleranceReached s, counter s, cerr s))
     (loopBody exampleConstants 10 True
        (initialState exampleConstants
           (staticCalculator [] (zeroToleranceCriteria 0 print_warning_and_accept)) 10 10))
     = Inr (False, 1, [Warning 0 0 10])"
    by (simp add: solve_defs example_defs)
next
  fix n
  show "calculateLightTimeWithMultiLegLinkEndsStates n exampleConstants
            (staticCalculator [] (zeroToleranceCriteria 0 print_warning_and_accept))
            [NaN, NaN] [NaN, NaN] 10 True 0 = None"
    by (rule solve_warn_never_returns) (simp_all add: example_defs getAbsoluteTolerance_def)
qed

theorem print_warning_and_accept_does_not_accept_witness:
  "calculateLightTimeWithMultiLegLinkEndsStates 100 exampleConstants
     (staticCalculator [] (zeroToleranceCriteria 0 print_warning_and_accept))
     [NaN, NaN] [NaN, NaN] 10 True 0 = None"
  using print_warning_and_accept_does_not_accept by blast

text \<open>
  C2, at a failing input: the same two link ends with the default limit of 50
  iterations, tolerance zero and \<^verbatim>\<open>print_warning_and_accept\<close>. The single-leg solve
  \<^verbatim>\<open>calculateLightTime\<close> neither returns nor throws within any number of passes.
\<close>

theorem solve_does_not_terminate:
  "\<forall>n. calculateLightTime n exampleConstants
         (staticCalculator [] (zeroToleranceCriteria 50 print_warning_and_accept)) 10 True
       = None"
proof
  fix n
  have "calculateLightTimeWithMultiLegLinkEndsStates n exampleConstants
            (staticCalculator [] (zeroToleranceCriteria 50 print_warning_and_accept))
            [NaN, NaN] [NaN, NaN] 10 True 0 = None"
    by (rule solve_warn_never_returns) (simp_all add: example_defs getAbsoluteTolerance_def)
  then show "calculateLightTime n exampleConstants
         (staticCalculator [] (zeroToleranceCriteria 50 print_warning_and_accept)) 10 True
       = None"
    by (simp add: calculateLightTime_def calculateLightTimeWithLinkEndsStates_def numeral_2_eq_2)
qed

theorem solve_does_not_terminate_witness:
  "calculateLightTime 100 exampleConstants
     (staticCalculator [] (zeroToleranceCriteria 50 print_warning_and_accept)) 10 True
   = None"
  using solve_does_not_terminate by blast

subsection \<open>A case in which the loop is bounded\<close>

text \<open>
  For comparison: when the corrections are iterated (the flag is set from the start),
  the limit is not negative and the policy is one of the other two, the loop ends or
  throws within \<open>maximumNumberOfIterations_ + 1\<close> passes.
\<close>

lemma loopBody_iterated_step:
  assumes "updateLightTimeCorrections s"
    and "failureHandling (lightTimeConvergenceCriteria (calculator s))
           \<noteq> print_warning_and_accept"
    and "loopBody K time r s = Inr s'"
    and "\<not> isToleranceReached s'"
  shows "updateLightTimeCorrections s'" "counter s' = counter s + 1"
    "counter s \<noteq> maximumNumberOfIterations (lightTimeConvergenceCriteria (calculator s))"
    "lightTimeConvergenceCriteria (calculator s')
       = lightTimeConvergenceCriteria (calculator s)"
  using assms
  by (auto simp: loopBody_def Let_def calculateNewLightTimeEstimate_def
      isLightTimeSolutionConverged_def setTotalLightTimeCorrection_def
      split: if_splits sum.splits prod.splits LightTimeFailureHandling.splits)

lemma whileLoop_iterated_ends:
  assumes "updateLightTimeCorrections s"
    and "failureHandling (lightTimeConvergenceCriteria (calculator s))
           \<noteq> print_warning_and_accept"
    and "counter s \<le> maximumNumberOfIterations (lightTimeConvergenceCriteria (calculator s))"
    and "m = nat (maximumNumberOfIterations (lightTimeConvergenceCriteria (calculator s))
                   - counter s)"
  shows "whileLoop (Suc m) K time r s \<noteq> None"
  using assms
proof (induction m arbitrary: s)
  case 0
  show ?case
  proof (cases "loopBody K time r s")
    case (Inl e)
    then show ?thesis by simp
  next
    case (Inr s')
    show ?thesis
    proof (cases "isToleranceReached s'")
      case True
      with Inr show ?thesis by simp
    next
      case False
      from loopBody_iterated_step(3) [OF "0.prems"(1,2) Inr False] "0.prems"(3,4)
      show ?thesis by simp
    qed
  qed
next
  case (Suc m)
  show ?case
  proof (cases "loopBody K time r s")
    case (Inl e)
    then show ?thesis by simp
  next
    case (Inr s')
    show ?thesis
    proof (cases "isToleranceReached s'")
      case True
      with Inr show ?thesis by (simp add: whileLoop_reached)
    next
      case False
      note st = loopBody_iterated_step [OF Suc.prems(1,2) Inr False]
      have "whileLoop (Suc m) K time r s' \<noteq> None"
        by (rule Suc.IH) (use st Suc.prems in auto)
      with Inr show ?thesis by (simp del: whileLoop.simps add: whileLoop.simps(2) [of "Suc m" K time r s])
    qed
  qed
qed


section \<open>The extra iteration before convergence is accepted\<close>

text \<open>The four outcomes of a pass, by the change of its estimate and the iteration
  count.\<close>

lemma loopBody_change_below_tolerance:
  assumes "\<bar>nextEstimate K time r s - previousLightTimeCalculation s\<bar>
             < getAbsoluteTolerance K (lightTimeConvergenceCriteria (calculator s))"
  shows "\<exists>s'. loopBody K time r s = Inr s'
           \<and> (isToleranceReached s' \<longleftrightarrow> updateLightTimeCorrections s)
           \<and> updateLightTimeCorrections s'
           \<and> counter s' = counter s + 1
           \<and> newLightTimeCalculation s' = nextEstimate K time r s
           \<and> previousLightTimeCalculation s' = nextEstimate K time r s
           \<and> currentCorrection (calculator s') = correctionInPass s
           \<and> same_setup (calculator s') (calculator s)"
  using assms
  by (cases r; cases "updateLightTimeCorrections s")
     (simp_all add: loopBody_def Let_def calculateNewLightTimeEstimate_def nextEstimate_def
        correctionInPass_def isLightTimeSolutionConverged_def fold_plus_sum_list
        setTotalLightTimeCorrection_def same_setup_def)

lemma loopBody_change_not_below_before_limit:
  assumes "\<not> \<bar>nextEstimate K time r s - previousLightTimeCalculation s\<bar>
             < getAbsoluteTolerance K (lightTimeConvergenceCriteria (calculator s))"
    and "counter s \<noteq> maximumNumberOfIterations (lightTimeConvergenceCriteria (calculator s))"
  shows "\<exists>s'. loopBody K time r s = Inr s'
           \<and> \<not> isToleranceReached s'
           \<and> (updateLightTimeCorrections s' \<longleftrightarrow> updateLightTimeCorrections s)
           \<and> counter s' = counter s + 1
           \<and> newLightTimeCalculation s' = nextEstimate K time r s
           \<and> previousLightTimeCalculation s' = nextEstimate K time r s
           \<and> currentCorrection (calculator s') = correctionInPass s
           \<and> same_setup (calculator s') (calculator s)"
  using assms
  by (cases r; cases "updateLightTimeCorrections s")
     (simp_all add: loopBody_def Let_def calculateNewLightTimeEstimate_def nextEstimate_def
        correctionInPass_def isLightTimeSolutionConverged_def fold_plus_sum_list
        setTotalLightTimeCorrection_def same_setup_def)

lemma loopBody_accepts_at_limit:
  assumes "\<not> \<bar>nextEstimate K time r s - previousLightTimeCalculation s\<bar>
             < getAbsoluteTolerance K (lightTimeConvergenceCriteria (calculator s))"
    and "counter s = maximumNumberOfIterations (lightTimeConvergenceCriteria (calculator s))"
    and "failureHandling (lightTimeConvergenceCriteria (calculator s)) = accept_without_warning"
  shows "\<exists>s'. loopBody K time r s = Inr s'
           \<and> isToleranceReached s'
           \<and> counter s' = counter s + 1
           \<and> newLightTimeCalculation s' = nextEstimate K time r s
           \<and> currentCorrection (calculator s') = correctionInPass s"
  using assms
  by (cases r; cases "updateLightTimeCorrections s")
     (simp_all add: loopBody_def Let_def calculateNewLightTimeEstimate_def nextEstimate_def
        correctionInPass_def isLightTimeSolutionConverged_def fold_plus_sum_list
        setTotalLightTimeCorrection_def)

lemma loopBody_throws_at_limit:
  assumes "\<not> \<bar>nextEstimate K time r s - previousLightTimeCalculation s\<bar>
             < getAbsoluteTolerance K (lightTimeConvergenceCriteria (calculator s))"
    and "counter s = maximumNumberOfIterations (lightTimeConvergenceCriteria (calculator s))"
    and "failureHandling (lightTimeConvergenceCriteria (calculator s)) = throw_exception"
  shows "loopBody K time r s
           = Inl (LightTimeUnconverged
                    \<bar>nextEstimate K time r s - previousLightTimeCalculation s\<bar>
                    (correctionInPass s) time)"
  using assms
  by (cases r; cases "updateLightTimeCorrections s")
     (simp_all add: loopBody_def Let_def calculateNewLightTimeEstimate_def nextEstimate_def
        correctionInPass_def isLightTimeSolutionConverged_def fold_plus_sum_list
        setTotalLightTimeCorrection_def)

text \<open>A pass that starts with the flag set leaves it set and has refreshed the total
  correction at the states and times it found.\<close>

lemma loopBody_flag_stays_set:
  assumes "updateLightTimeCorrections a" and "loopBody K time r a = Inr b"
  shows "updateLightTimeCorrections b"
    and "currentCorrection (calculator b)
           = (\<Sum>f\<leftarrow>correctionFunctions (calculator a).
                f (transmitterState a) (receiverState a) (transmissionTime a)
                  (receptionTime a))"
  using assms
  by (auto simp: loopBody_def Let_def calculateNewLightTimeEstimate_def
      isLightTimeSolutionConverged_def fold_plus_sum_list setTotalLightTimeCorrection_def
      split: if_splits sum.splits prod.splits LightTimeFailureHandling.splits)

text \<open>Until the change is below the tolerance for the first time the flag stays as the
  criteria set it: a pass that starts with the flag unset and finds the change not
  below the tolerance leaves it unset.\<close>

lemma flag_unset_before_first_drop:
  assumes "\<not> updateLightTimeCorrections s"
    and "loopBody K time r s = Inr s1"
    and "\<not> \<bar>nextEstimate K time r s - previousLightTimeCalculation s\<bar>
             < getAbsoluteTolerance K (lightTimeConvergenceCriteria (calculator s))"
  shows "\<not> updateLightTimeCorrections s1"
  using assms
  by (cases r)
     (auto simp: loopBody_def Let_def calculateNewLightTimeEstimate_def nextEstimate_def
        correctionInPass_def isLightTimeSolutionConverged_def
        split: if_splits sum.splits prod.splits LightTimeFailureHandling.splits)

text \<open>
  C3, as the code has it. Take a pass of the loop that starts with
  \<^verbatim>\<open>updateLightTimeCorrections\<close> unset (corrections are not iterated and the change has
  not been below the tolerance before) and whose estimate changes by less than the
  tolerance. The pass does not end the loop: it sets the flag and leaves a state \<open>s1\<close>,
  from which the loop makes an additional pass with the total correction refreshed at
  the states and times of \<open>s1\<close>. What the additional pass does depends on the change of
  its estimate:
  \<^item> below the tolerance: it ends the loop, which has made exactly one additional pass;
  \<^item> not below the tolerance, iteration count not at the limit: the loop goes on with
    the flag set;
  \<^item> not below the tolerance, iteration count at the limit, \<^verbatim>\<open>accept_without_warning\<close>:
    it ends the loop with the unconverged estimate;
  \<^item> not below the tolerance, iteration count at the limit, \<^verbatim>\<open>throw_exception\<close>: it
    throws the convergence failure.

  Every later pass finds the flag set, leaves it set and refreshes the correction.
  Nothing depends on the correction list, which may be empty.
\<close>

theorem extra_iteration_before_convergence:
  assumes "\<not> isToleranceReached s"
    and "\<not> updateLightTimeCorrections s"
    and "\<bar>nextEstimate K time isTimeAtReception s - previousLightTimeCalculation s\<bar>
           < getAbsoluteTolerance K (lightTimeConvergenceCriteria (calculator s))"
  shows "(\<exists>s1. loopBody K time isTimeAtReception s = Inr s1
        \<and> \<not> isToleranceReached s1 \<and> updateLightTimeCorrections s1
        \<and> counter s1 = counter s + 1
        \<and> correctionInPass s1
            = (\<Sum>f\<leftarrow>correctionFunctions (calculator s).
                 f (transmitterState s1) (receiverState s1) (transmissionTime s1)
                   (receptionTime s1))
        \<and> (\<bar>nextEstimate K time isTimeAtReception s1 - previousLightTimeCalculation s1\<bar>
              < getAbsoluteTolerance K (lightTimeConvergenceCriteria (calculator s))
            \<longrightarrow> (\<exists>s2. loopBody K time isTimeAtReception s1 = Inr s2
                  \<and> isToleranceReached s2 \<and> counter s2 = counter s + 2
                  \<and> newLightTimeCalculation s2 = nextEstimate K time isTimeAtReception s1
                  \<and> currentCorrection (calculator s2) = correctionInPass s1
                  \<and> whileLoop (Suc (Suc n)) K time isTimeAtReception s = Some (Inr s2)))
        \<and> (\<not> \<bar>nextEstimate K time isTimeAtReception s1 - previousLightTimeCalculation s1\<bar>
                < getAbsoluteTolerance K (lightTimeConvergenceCriteria (calculator s))
            \<and> counter s1 \<noteq> maximumNumberOfIterations
                                (lightTimeConvergenceCriteria (calculator s))
            \<longrightarrow> (\<exists>s2. loopBody K time isTimeAtReception s1 = Inr s2
                  \<and> \<not> isToleranceReached s2 \<and> updateLightTimeCorrections s2
                  \<and> newLightTimeCalculation s2 = nextEstimate K time isTimeAtReception s1
                  \<and> currentCorrection (calculator s2) = correctionInPass s1
                  \<and> whileLoop (Suc (Suc n)) K time isTimeAtReception s
                      = whileLoop n K time isTimeAtReception s2))
        \<and> (\<not> \<bar>nextEstimate K time isTimeAtReception s1 - previousLightTimeCalculation s1\<bar>
                < getAbsoluteTolerance K (lightTimeConvergenceCriteria (calculator s))
            \<and> counter s1 = maximumNumberOfIterations
                              (lightTimeConvergenceCriteria (calculator s))
            \<and> failureHandling (lightTimeConvergenceCriteria (calculator s))
                = accept_without_warning
            \<longrightarrow> (\<exists>s2. loopBody K time isTimeAtReception s1 = Inr s2
                  \<and> isToleranceReached s2
                  \<and> newLightTimeCalculation s2 = nextEstimate K time isTimeAtReception s1
                  \<and> currentCorrection (calculator s2) = correctionInPass s1
                  \<and> whileLoop (Suc (Suc n)) K time isTimeAtReception s = Some (Inr s2)))
        \<and> (\<not> \<bar>nextEstimate K time isTimeAtReception s1 - previousLightTimeCalculation s1\<bar>
                < getAbsoluteTolerance K (lightTimeConvergenceCriteria (calculator s))
            \<and> counter s1 = maximumNumberOfIterations
                              (lightTimeConvergenceCriteria (calculator s))
            \<and> failureHandling (lightTimeConvergenceCriteria (calculator s)) = throw_exception
            \<longrightarrow> whileLoop (Suc (Suc n)) K time isTimeAtReception s
                  = Some (Inl (LightTimeUnconverged
                        \<bar>nextEstimate K time isTimeAtReception s1
                           - previousLightTimeCalculation s1\<bar>
                        (correctionInPass s1) time))))
     \<and> (\<forall>a b. updateLightTimeCorrections a \<longrightarrow> loopBody K time isTimeAtReception a = Inr b
           \<longrightarrow> updateLightTimeCorrections b
             \<and> currentCorrection (calculator b)
                 = (\<Sum>f\<leftarrow>correctionFunctions (calculator a).
                      f (transmitterState a) (receiverState a) (transmissionTime a)
                        (receptionTime a)))"
proof -
  let ?crit = "lightTimeConvergenceCriteria (calculator s)"
  let ?tol = "getAbsoluteTolerance K ?crit"
  from loopBody_change_below_tolerance [OF assms(3)] assms(2)
  obtain s1 where b1: "loopBody K time isTimeAtReception s = Inr s1"
    and r1: "\<not> isToleranceReached s1" and u1: "updateLightTimeCorrections s1"
    and c1: "counter s1 = counter s + 1"
    and ss: "same_setup (calculator s1) (calculator s)"
    by blast
  from ss have crit: "lightTimeConvergenceCriteria (calculator s1) = ?crit"
    and cf: "correctionFunctions (calculator s1) = correctionFunctions (calculator s)"
    by (simp_all add: same_setup_def)
  let ?change = "\<bar>nextEstimate K time isTimeAtReception s1 - previousLightTimeCalculation s1\<bar>"
  have w: "whileLoop (Suc (Suc n)) K time isTimeAtReception s
             = (case loopBody K time isTimeAtReception s1 of
                  Inl e \<Rightarrow> Some (Inl e)
                | Inr s2 \<Rightarrow> whileLoop n K time isTimeAtReception s2)"
    using assms(1) b1 r1 by simp
  have cp: "correctionInPass s1
            = (\<Sum>f\<leftarrow>correctionFunctions (calculator s).
                 f (transmitterState s1) (receiverState s1) (transmissionTime s1)
                   (receptionTime s1))"
    using u1 cf by (simp add: correctionInPass_def)
  have A: "\<exists>s2. loopBody K time isTimeAtReception s1 = Inr s2
                  \<and> isToleranceReached s2 \<and> counter s2 = counter s + 2
                  \<and> newLightTimeCalculation s2 = nextEstimate K time isTimeAtReception s1
                  \<and> currentCorrection (calculator s2) = correctionInPass s1
                  \<and> whileLoop (Suc (Suc n)) K time isTimeAtReception s = Some (Inr s2)"
    if "?change < ?tol"
  proof -
    from that have "?change < getAbsoluteTolerance K
                       (lightTimeConvergenceCriteria (calculator s1))"
      by (simp add: crit)
    from loopBody_change_below_tolerance [OF this] u1
    obtain s2 where "loopBody K time isTimeAtReception s1 = Inr s2"
      "isToleranceReached s2" "counter s2 = counter s1 + 1"
      "newLightTimeCalculation s2 = nextEstimate K time isTimeAtReception s1"
      "currentCorrection (calculator s2) = correctionInPass s1"
      by blast
    then show ?thesis using w c1 by (auto simp: whileLoop_reached)
  qed
  have B: "\<exists>s2. loopBody K time isTimeAtReception s1 = Inr s2
                  \<and> \<not> isToleranceReached s2 \<and> updateLightTimeCorrections s2
                  \<and> newLightTimeCalculation s2 = nextEstimate K time isTimeAtReception s1
                  \<and> currentCorrection (calculator s2) = correctionInPass s1
                  \<and> whileLoop (Suc (Suc n)) K time isTimeAtReception s
                      = whileLoop n K time isTimeAtReception s2"
    if "\<not> ?change < ?tol" "counter s1 \<noteq> maximumNumberOfIterations ?crit"
  proof -
    from that have h: "\<not> ?change < getAbsoluteTolerance K
                       (lightTimeConvergenceCriteria (calculator s1))"
      "counter s1 \<noteq> maximumNumberOfIterations (lightTimeConvergenceCriteria (calculator s1))"
      by (simp_all add: crit)
    from loopBody_change_not_below_before_limit [OF h] u1
    obtain s2 where "loopBody K time isTimeAtReception s1 = Inr s2"
      "\<not> isToleranceReached s2" "updateLightTimeCorrections s2"
      "newLightTimeCalculation s2 = nextEstimate K time isTimeAtReception s1"
      "currentCorrection (calculator s2) = correctionInPass s1"
      by blast
    then show ?thesis using w by auto
  qed
  have C: "\<exists>s2. loopBody K time isTimeAtReception s1 = Inr s2
                  \<and> isToleranceReached s2
                  \<and> newLightTimeCalculation s2 = nextEstimate K time isTimeAtReception s1
                  \<and> currentCorrection (calculator s2) = correctionInPass s1
                  \<and> whileLoop (Suc (Suc n)) K time isTimeAtReception s = Some (Inr s2)"
    if "\<not> ?change < ?tol" "counter s1 = maximumNumberOfIterations ?crit"
      "failureHandling ?crit = accept_without_warning"
  proof -
    from that have h: "\<not> ?change < getAbsoluteTolerance K
                       (lightTimeConvergenceCriteria (calculator s1))"
      "counter s1 = maximumNumberOfIterations (lightTimeConvergenceCriteria (calculator s1))"
      "failureHandling (lightTimeConvergenceCriteria (calculator s1)) = accept_without_warning"
      by (simp_all add: crit)
    from loopBody_accepts_at_limit [OF h]
    obtain s2 where "loopBody K time isTimeAtReception s1 = Inr s2"
      "isToleranceReached s2"
      "newLightTimeCalculation s2 = nextEstimate K time isTimeAtReception s1"
      "currentCorrection (calculator s2) = correctionInPass s1"
      by blast
    then show ?thesis using w by (auto simp: whileLoop_reached)
  qed
  have D: "whileLoop (Suc (Suc n)) K time isTimeAtReception s
             = Some (Inl (LightTimeUnconverged ?change (correctionInPass s1) time))"
    if "\<not> ?change < ?tol" "counter s1 = maximumNumberOfIterations ?crit"
      "failureHandling ?crit = throw_exception"
  proof -
    from that have h: "\<not> ?change < getAbsoluteTolerance K
                       (lightTimeConvergenceCriteria (calculator s1))"
      "counter s1 = maximumNumberOfIterations (lightTimeConvergenceCriteria (calculator s1))"
      "failureHandling (lightTimeConvergenceCriteria (calculator s1)) = throw_exception"
      by (simp_all add: crit)
    from loopBody_throws_at_limit [OF h] w show ?thesis by simp
  qed
  have E: "\<forall>a b. updateLightTimeCorrections a \<longrightarrow> loopBody K time isTimeAtReception a = Inr b
           \<longrightarrow> updateLightTimeCorrections b
             \<and> currentCorrection (calculator b)
                 = (\<Sum>f\<leftarrow>correctionFunctions (calculator a).
                      f (transmitterState a) (receiverState a) (transmissionTime a)
                        (receptionTime a))"
    using loopBody_flag_stays_set by blast
  have "\<exists>s1. loopBody K time isTimeAtReception s = Inr s1
        \<and> \<not> isToleranceReached s1 \<and> updateLightTimeCorrections s1
        \<and> counter s1 = counter s + 1
        \<and> correctionInPass s1
            = (\<Sum>f\<leftarrow>correctionFunctions (calculator s).
                 f (transmitterState s1) (receiverState s1) (transmissionTime s1)
                   (receptionTime s1))
        \<and> (\<bar>nextEstimate K time isTimeAtReception s1 - previousLightTimeCalculation s1\<bar>
              < ?tol
            \<longrightarrow> (\<exists>s2. loopBody K time isTimeAtReception s1 = Inr s2
                  \<and> isToleranceReached s2 \<and> counter s2 = counter s + 2
                  \<and> newLightTimeCalculation s2 = nextEstimate K time isTimeAtReception s1
                  \<and> currentCorrection (calculator s2) = correctionInPass s1
                  \<and> whileLoop (Suc (Suc n)) K time isTimeAtReception s = Some (Inr s2)))
        \<and> (\<not> \<bar>nextEstimate K time isTimeAtReception s1 - previousLightTimeCalculation s1\<bar>
                < ?tol
            \<and> counter s1 \<noteq> maximumNumberOfIterations ?crit
            \<longrightarrow> (\<exists>s2. loopBody K time isTimeAtReception s1 = Inr s2
                  \<and> \<not> isToleranceReached s2 \<and> updateLightTimeCorrections s2
                  \<and> newLightTimeCalculation s2 = nextEstimate K time isTimeAtReception s1
                  \<and> currentCorrection (calculator s2) = correctionInPass s1
                  \<and> whileLoop (Suc (Suc n)) K time isTimeAtReception s
                      = whileLoop n K time isTimeAtReception s2))
        \<and> (\<not> \<bar>nextEstimate K time isTimeAtReception s1 - previousLightTimeCalculation s1\<bar>
                < ?tol
            \<and> counter s1 = maximumNumberOfIterations ?crit
            \<and> failureHandling ?crit = accept_without_warning
            \<longrightarrow> (\<exists>s2. loopBody K time isTimeAtReception s1 = Inr s2
                  \<and> isToleranceReached s2
                  \<and> newLightTimeCalculation s2 = nextEstimate K time isTimeAtReception s1
                  \<and> currentCorrection (calculator s2) = correctionInPass s1
                  \<and> whileLoop (Suc (Suc n)) K time isTimeAtReception s = Some (Inr s2)))
        \<and> (\<not> \<bar>nextEstimate K time isTimeAtReception s1 - previousLightTimeCalculation s1\<bar>
                < ?tol
            \<and> counter s1 = maximumNumberOfIterations ?crit
            \<and> failureHandling ?crit = throw_exception
            \<longrightarrow> whileLoop (Suc (Suc n)) K time isTimeAtReception s
                  = Some (Inl (LightTimeUnconverged
                        \<bar>nextEstimate K time isTimeAtReception s1
                           - previousLightTimeCalculation s1\<bar>
                        (correctionInPass s1) time)))"
    by (intro exI [of _ s1] conjI impI b1 r1 u1 c1 cp A B C D; (elim conjE)?; assumption)
  from this E show ?thesis by (rule conjI)
qed

theorem extra_iteration_before_convergence_witness:
  "(\<exists>s2. whileLoop (Suc (Suc 0)) exampleConstants 10 True
            (initialState exampleConstants
               (staticCalculator [] defaultLightTimeConvergenceCriteria) 10 10)
           = Some (Inr s2)
         \<and> counter s2 = 2 \<and> newLightTimeCalculation s2 = 1)
   \<and> (\<exists>s2. whileLoop (Suc (Suc 0)) exampleConstants 10 True
              (initialState exampleConstants
                 (staticCalculator [lateCorrection] defaultLightTimeConvergenceCriteria) 10 10)
             = whileLoop 0 exampleConstants 10 True s2
           \<and> \<not> isToleranceReached s2 \<and> updateLightTimeCorrections s2
           \<and> newLightTimeCalculation s2 = 2)
   \<and> (\<exists>s2. whileLoop (Suc (Suc 0)) exampleConstants 10 True
              (initialState exampleConstants
                 (staticCalculator [lateCorrection] (limitOneCriteria accept_without_warning))
                 10 10)
             = Some (Inr s2)
           \<and> newLightTimeCalculation s2 = 2)
   \<and> whileLoop (Suc (Suc 0)) exampleConstants 10 True
        (initialState exampleConstants
           (staticCalculator [lateCorrection] (limitOneCriteria throw_exception)) 10 10)
       = Some (Inl (LightTimeUnconverged 1 1 10))"
proof -
  let ?K = exampleConstants
  note defs = solve_defs example_defs nextEstimate_def correctionInPass_def
  have A: "\<exists>s2. whileLoop (Suc (Suc 0)) ?K 10 True
            (initialState ?K (staticCalculator [] defaultLightTimeConvergenceCriteria) 10 10)
           = Some (Inr s2)
         \<and> counter s2 = 2 \<and> newLightTimeCalculation s2 = 1"
  proof -
    let ?c = defaultLightTimeConvergenceCriteria
    let ?s0 = "initialState ?K (staticCalculator [] ?c) 10 10"
    let ?tol = "getAbsoluteTolerance ?K (lightTimeConvergenceCriteria (calculator ?s0))"
    have s: "\<not> isToleranceReached ?s0" "\<not> updateLightTimeCorrections ?s0"
      "\<bar>nextEstimate ?K 10 True ?s0 - previousLightTimeCalculation ?s0\<bar> < ?tol"
      by (simp_all add: defs)
    have c0: "counter ?s0 = 0" by (simp add: initialState_fields)
    have "\<exists>s1. loopBody ?K 10 True ?s0 = Inr s1
            \<and> \<bar>nextEstimate ?K 10 True s1 - previousLightTimeCalculation s1\<bar> < ?tol
            \<and> nextEstimate ?K 10 True s1 = 1"
      by (simp add: defs)
    then obtain s1' where f: "loopBody ?K 10 True ?s0 = Inr s1'"
      "\<bar>nextEstimate ?K 10 True s1' - previousLightTimeCalculation s1'\<bar> < ?tol"
      "nextEstimate ?K 10 True s1' = 1"
      by (elim exE conjE)
    from extra_iteration_before_convergence [OF s, of 0]
    obtain s1 where b: "loopBody ?K 10 True ?s0 = Inr s1"
      and br: "\<bar>nextEstimate ?K 10 True s1 - previousLightTimeCalculation s1\<bar> < ?tol
            \<longrightarrow> (\<exists>s2. loopBody ?K 10 True s1 = Inr s2
                  \<and> isToleranceReached s2 \<and> counter s2 = counter ?s0 + 2
                  \<and> newLightTimeCalculation s2 = nextEstimate ?K 10 True s1
                  \<and> currentCorrection (calculator s2) = correctionInPass s1
                  \<and> whileLoop (Suc (Suc 0)) ?K 10 True ?s0 = Some (Inr s2))"
      by (elim conjE exE) (rule that; assumption)
    from b f(1) have e: "s1 = s1'" by (simp only: sum.inject)
    from br [unfolded e] f(2)
    obtain s2 where g: "counter s2 = counter ?s0 + 2"
      "newLightTimeCalculation s2 = nextEstimate ?K 10 True s1'"
      "whileLoop (Suc (Suc 0)) ?K 10 True ?s0 = Some (Inr s2)"
      by blast
    have "counter s2 = 2" using g(1) c0 by simp
    moreover have "newLightTimeCalculation s2 = 1" using g(2) f(3) by simp
    ultimately show ?thesis using g(3) by blast
  qed
  have D: "whileLoop (Suc (Suc 0)) ?K 10 True
        (initialState ?K
           (staticCalculator [lateCorrection] (limitOneCriteria throw_exception)) 10 10)
       = Some (Inl (LightTimeUnconverged 1 1 10))"
  proof -
    let ?c = "limitOneCriteria throw_exception"
    let ?s0 = "initialState ?K (staticCalculator [lateCorrection] ?c) 10 10"
    let ?crit = "lightTimeConvergenceCriteria (calculator ?s0)"
    let ?tol = "getAbsoluteTolerance ?K ?crit"
    have s: "\<not> isToleranceReached ?s0" "\<not> updateLightTimeCorrections ?s0"
      "\<bar>nextEstimate ?K 10 True ?s0 - previousLightTimeCalculation ?s0\<bar> < ?tol"
      by (simp_all add: defs)
    have "\<exists>s1. loopBody ?K 10 True ?s0 = Inr s1
            \<and> \<not> \<bar>nextEstimate ?K 10 True s1 - previousLightTimeCalculation s1\<bar> < ?tol
            \<and> counter s1 = maximumNumberOfIterations ?crit
            \<and> failureHandling ?crit = throw_exception
            \<and> \<bar>nextEstimate ?K 10 True s1 - previousLightTimeCalculation s1\<bar> = 1
            \<and> correctionInPass s1 = 1"
      by (simp add: defs)
    then obtain s1' where f: "loopBody ?K 10 True ?s0 = Inr s1'"
      "\<not> \<bar>nextEstimate ?K 10 True s1' - previousLightTimeCalculation s1'\<bar> < ?tol"
      "counter s1' = maximumNumberOfIterations ?crit"
      "failureHandling ?crit = throw_exception"
      "\<bar>nextEstimate ?K 10 True s1' - previousLightTimeCalculation s1'\<bar> = 1"
      "correctionInPass s1' = 1"
      by (elim exE conjE)
    from extra_iteration_before_convergence [OF s, of 0]
    obtain s1 where b: "loopBody ?K 10 True ?s0 = Inr s1"
      and br: "\<not> \<bar>nextEstimate ?K 10 True s1 - previousLightTimeCalculation s1\<bar> < ?tol
            \<and> counter s1 = maximumNumberOfIterations ?crit
            \<and> failureHandling ?crit = throw_exception
            \<longrightarrow> whileLoop (Suc (Suc 0)) ?K 10 True ?s0
                  = Some (Inl (LightTimeUnconverged
                        \<bar>nextEstimate ?K 10 True s1 - previousLightTimeCalculation s1\<bar>
                        (correctionInPass s1) 10))"
      by (elim conjE exE) (rule that; assumption)
    from b f(1) have e: "s1 = s1'" by (simp only: sum.inject)
    from br [unfolded e] f(2,3,4)
    have "whileLoop (Suc (Suc 0)) ?K 10 True ?s0
                  = Some (Inl (LightTimeUnconverged
                        \<bar>nextEstimate ?K 10 True s1' - previousLightTimeCalculation s1'\<bar>
                        (correctionInPass s1') 10))"
      by blast
    then show ?thesis by (simp only: f(5,6))
  qed
  have B: "\<exists>s2. whileLoop (Suc (Suc 0)) ?K 10 True
              (initialState ?K
                 (staticCalculator [lateCorrection] defaultLightTimeConvergenceCriteria) 10 10)
             = whileLoop 0 ?K 10 True s2
           \<and> \<not> isToleranceReached s2 \<and> updateLightTimeCorrections s2
           \<and> newLightTimeCalculation s2 = 2"
  proof -
    let ?c = defaultLightTimeConvergenceCriteria
    let ?s0 = "initialState ?K (staticCalculator [lateCorrection] ?c) 10 10"
    let ?crit = "lightTimeConvergenceCriteria (calculator ?s0)"
    let ?tol = "getAbsoluteTolerance ?K ?crit"
    have s: "\<not> isToleranceReached ?s0" "\<not> updateLightTimeCorrections ?s0"
      "\<bar>nextEstimate ?K 10 True ?s0 - previousLightTimeCalculation ?s0\<bar> < ?tol"
      by (simp_all add: defs)
    have "\<exists>s1. loopBody ?K 10 True ?s0 = Inr s1
            \<and> \<not> \<bar>nextEstimate ?K 10 True s1 - previousLightTimeCalculation s1\<bar> < ?tol
            \<and> counter s1 \<noteq> maximumNumberOfIterations ?crit
            \<and> nextEstimate ?K 10 True s1 = 2"
      by (simp add: defs)
    then obtain s1' where f: "loopBody ?K 10 True ?s0 = Inr s1'"
      "\<not> \<bar>nextEstimate ?K 10 True s1' - previousLightTimeCalculation s1'\<bar> < ?tol"
      "counter s1' \<noteq> maximumNumberOfIterations ?crit"
      "nextEstimate ?K 10 True s1' = 2"
      by (elim exE conjE)
    from extra_iteration_before_convergence [OF s, of 0]
    obtain s1 where b: "loopBody ?K 10 True ?s0 = Inr s1"
      and br: "\<not> \<bar>nextEstimate ?K 10 True s1 - previousLightTimeCalculation s1\<bar> < ?tol
            \<and> counter s1 \<noteq> maximumNumberOfIterations ?crit
            \<longrightarrow> (\<exists>s2. loopBody ?K 10 True s1 = Inr s2
                  \<and> \<not> isToleranceReached s2 \<and> updateLightTimeCorrections s2
                  \<and> newLightTimeCalculation s2 = nextEstimate ?K 10 True s1
                  \<and> currentCorrection (calculator s2) = correctionInPass s1
                  \<and> whileLoop (Suc (Suc 0)) ?K 10 True ?s0 = whileLoop 0 ?K 10 True s2)"
      by (elim conjE exE) (rule that; assumption)
    from b f(1) have e: "s1 = s1'" by (simp only: sum.inject)
    from br [unfolded e] f(2,3)
    obtain s2 where g: "\<not> isToleranceReached s2" "updateLightTimeCorrections s2"
      "newLightTimeCalculation s2 = nextEstimate ?K 10 True s1'"
      "whileLoop (Suc (Suc 0)) ?K 10 True ?s0 = whileLoop 0 ?K 10 True s2"
      by blast
    have "newLightTimeCalculation s2 = 2" using g(3) f(4) by simp
    with g(1,2,4) show ?thesis by blast
  qed
  have C: "\<exists>s2. whileLoop (Suc (Suc 0)) ?K 10 True
              (initialState ?K
                 (staticCalculator [lateCorrection] (limitOneCriteria accept_without_warning))
                 10 10)
             = Some (Inr s2)
           \<and> newLightTimeCalculation s2 = 2"
  proof -
    let ?c = "limitOneCriteria accept_without_warning"
    let ?s0 = "initialState ?K (staticCalculator [lateCorrection] ?c) 10 10"
    let ?crit = "lightTimeConvergenceCriteria (calculator ?s0)"
    let ?tol = "getAbsoluteTolerance ?K ?crit"
    have s: "\<not> isToleranceReached ?s0" "\<not> updateLightTimeCorrections ?s0"
      "\<bar>nextEstimate ?K 10 True ?s0 - previousLightTimeCalculation ?s0\<bar> < ?tol"
      by (simp_all add: defs)
    have "\<exists>s1. loopBody ?K 10 True ?s0 = Inr s1
            \<and> \<not> \<bar>nextEstimate ?K 10 True s1 - previousLightTimeCalculation s1\<bar> < ?tol
            \<and> counter s1 = maximumNumberOfIterations ?crit
            \<and> failureHandling ?crit = accept_without_warning
            \<and> nextEstimate ?K 10 True s1 = 2"
      by (simp add: defs)
    then obtain s1' where f: "loopBody ?K 10 True ?s0 = Inr s1'"
      "\<not> \<bar>nextEstimate ?K 10 True s1' - previousLightTimeCalculation s1'\<bar> < ?tol"
      "counter s1' = maximumNumberOfIterations ?crit"
      "failureHandling ?crit = accept_without_warning"
      "nextEstimate ?K 10 True s1' = 2"
      by (elim exE conjE)
    from extra_iteration_before_convergence [OF s, of 0]
    obtain s1 where b: "loopBody ?K 10 True ?s0 = Inr s1"
      and br: "\<not> \<bar>nextEstimate ?K 10 True s1 - previousLightTimeCalculation s1\<bar> < ?tol
            \<and> counter s1 = maximumNumberOfIterations ?crit
            \<and> failureHandling ?crit = accept_without_warning
            \<longrightarrow> (\<exists>s2. loopBody ?K 10 True s1 = Inr s2
                  \<and> isToleranceReached s2
                  \<and> newLightTimeCalculation s2 = nextEstimate ?K 10 True s1
                  \<and> currentCorrection (calculator s2) = correctionInPass s1
                  \<and> whileLoop (Suc (Suc 0)) ?K 10 True ?s0 = Some (Inr s2))"
      by (elim conjE exE) (rule that; assumption)
    from b f(1) have e: "s1 = s1'" by (simp only: sum.inject)
    from br [unfolded e] f(2,3,4)
    obtain s2 where g: "newLightTimeCalculation s2 = nextEstimate ?K 10 True s1'"
      "whileLoop (Suc (Suc 0)) ?K 10 True ?s0 = Some (Inr s2)"
      by blast
    have "newLightTimeCalculation s2 = 2" using g(1) f(5) by simp
    with g(2) show ?thesis by blast
  qed
  from A B C D show ?thesis by (intro conjI)
qed

text \<open>
  C3, as stated, fails when the refreshed correction moves the estimate. Two link ends
  at rest one light second apart, a correction of zero at the seed and one second
  afterwards, corrections not iterated: the first pass finds the change below the
  tolerance and sets the flag; the additional pass refreshes the correction, the
  estimate moves from one to two seconds and convergence is not declared; a second
  additional pass is needed, and the solve returns two seconds after three passes.
\<close>

theorem extra_iteration_not_single_counterexample:
  "iterateCorrections (lightTimeConvergenceCriteria
      (staticCalculator [lateCorrection] defaultLightTimeConvergenceCriteria)) = False
   \<and> map_sum id (\<lambda>s. (isToleranceReached s, updateLightTimeCorrections s, counter s,
                       newLightTimeCalculation s))
       (loopBody exampleConstants 10 True
          (initialState exampleConstants
             (staticCalculator [lateCorrection] defaultLightTimeConvergenceCriteria) 10 10))
       = Inr (False, True, 1, 1)
   \<and> calculateLightTimeWithMultiLegLinkEndsStates 2 exampleConstants
        (staticCalculator [lateCorrection] defaultLightTimeConvergenceCriteria)
        [NaN, NaN] [NaN, NaN] 10 True 0 = None
   \<and> map_option (map_sum id returnedLightTime)
        (calculateLightTimeWithMultiLegLinkEndsStates 3 exampleConstants
           (staticCalculator [lateCorrection] defaultLightTimeConvergenceCriteria)
           [NaN, NaN] [NaN, NaN] 10 True 0) = Some (Inr 2)"
  by (simp add: solve_defs example_defs numeral_2_eq_2 numeral_3_eq_3)


section \<open>The initial guess\<close>

lemma list_update_twice_overwritten:
  "xs[i := u, j := v, j := a, i := b] = xs[j := a, i := b]"
proof (cases "i = j")
  case True
  then show ?thesis by simp
next
  case False
  then have "xs[i := u, j := a] = xs[j := a, i := u]"
    by (simp add: list_update_swap)
  then show ?thesis by simp
qed

text \<open>What a pass of the loop leaves: the link end whose time is given keeps its state
  and gets the time \<open>time\<close>; the other one is moved by the previous estimate; a pass that
  ends the loop has found the change below the tolerance or the count at the limit.\<close>

lemma loopBody_pass:
  assumes "loopBody K time r s = Inr s'"
  shows "counter s' = counter s + 1"
    and "if r then receptionTime s' = time
                 \<and> transmissionTime s' = time - previousLightTimeCalculation s
                 \<and> receiverState s' = receiverState s
                 \<and> transmitterState s'
                     = stateFunctionOfTransmittingBody (calculator s)
                         (time - previousLightTimeCalculation s)
         else transmissionTime s' = time
                 \<and> receptionTime s' = time + previousLightTimeCalculation s
                 \<and> transmitterState s' = transmitterState s
                 \<and> receiverState s'
                     = stateFunctionOfReceivingBody (calculator s)
                         (time + previousLightTimeCalculation s)"
    and "isToleranceReached s'
           \<Longrightarrow> \<bar>newLightTimeCalculation s' - previousLightTimeCalculation s\<bar>
                 < getAbsoluteTolerance K (lightTimeConvergenceCriteria (calculator s))
               \<or> counter s = maximumNumberOfIterations
                               (lightTimeConvergenceCriteria (calculator s))"
  using assms
  by (auto simp: loopBody_def Let_def calculateNewLightTimeEstimate_def
      isLightTimeSolutionConverged_def setTotalLightTimeCorrection_def
      split: if_splits sum.splits prod.splits LightTimeFailureHandling.splits)

lemma whileLoop_ends_reached:
  "whileLoop n K time r s = Some (Inr s') \<Longrightarrow> isToleranceReached s'"
proof (induction n arbitrary: s)
  case 0
  then show ?case by (auto split: if_splits)
next
  case (Suc n)
  then show ?case by (auto split: if_splits sum.splits)
qed

lemma whileLoop_counter_bound:
  "whileLoop n K time r s = Some (Inr s') \<Longrightarrow> counter s' \<le> counter s + int n"
proof (induction n arbitrary: s)
  case 0
  then show ?case by (auto split: if_splits)
next
  case (Suc n)
  show ?case
  proof (cases "isToleranceReached s")
    case True
    with Suc.prems show ?thesis by simp
  next
    case False
    with Suc.prems obtain s1 where b: "loopBody K time r s = Inr s1"
      and w: "whileLoop n K time r s1 = Some (Inr s')"
      by (auto split: sum.splits)
    from Suc.IH [OF w] loopBody_pass(1) [OF b] show ?thesis by simp
  qed
qed

text \<open>A loop that ends within \<^verbatim>\<open>maximumNumberOfIterations_\<close> passes has ended by the
  convergence test, and its last pass has moved the link end that is solved for by a
  light time \<open>x\<close> from which the last estimate differs by less than the tolerance.\<close>

lemma loop_end_within_tolerance:
  assumes loop: "whileLoop n K time r (initialState K this rt tt) = Some (Inr s)"
    and limit: "int n \<le> maximumNumberOfIterations (lightTimeConvergenceCriteria this)"
    and fixed: "if r then stateFunctionOfReceivingBody this rt
                            = stateFunctionOfReceivingBody this time
                else stateFunctionOfTransmittingBody this tt
                       = stateFunctionOfTransmittingBody this time"
  shows "\<exists>x. (if r then receptionTime s = time \<and> transmissionTime s = time - x
                     \<and> receiverState s = stateFunctionOfReceivingBody this time
                     \<and> transmitterState s = stateFunctionOfTransmittingBody this (time - x)
              else transmissionTime s = time \<and> receptionTime s = time + x
                     \<and> transmitterState s = stateFunctionOfTransmittingBody this time
                     \<and> receiverState s = stateFunctionOfReceivingBody this (time + x))
           \<and> \<bar>newLightTimeCalculation s - x\<bar>
               < getAbsoluteTolerance K (lightTimeConvergenceCriteria this)"
proof -
  let ?crit = "lightTimeConvergenceCriteria this"
  let ?shape = "\<lambda>a x. (if r then receptionTime a = time \<and> transmissionTime a = time - x
                     \<and> receiverState a = stateFunctionOfReceivingBody this time
                     \<and> transmitterState a = stateFunctionOfTransmittingBody this (time - x)
              else transmissionTime a = time \<and> receptionTime a = time + x
                     \<and> transmitterState a = stateFunctionOfTransmittingBody this time
                     \<and> receiverState a = stateFunctionOfReceivingBody this (time + x))"
  let ?I = "\<lambda>a. same_setup (calculator a) this
              \<and> (if r then receiverState a = stateFunctionOfReceivingBody this time
                  else transmitterState a = stateFunctionOfTransmittingBody this time)
              \<and> (isToleranceReached a \<longrightarrow>
                    (\<exists>x. ?shape a x
                       \<and> (\<bar>newLightTimeCalculation a - x\<bar> < getAbsoluteTolerance K ?crit
                           \<or> counter a = maximumNumberOfIterations ?crit + 1)))"
  have I0: "?I (initialState K this rt tt)"
    using fixed initialState_same_setup [of K this rt tt]
    by (simp add: initialState_fields)
  have "?I s"
  proof (rule whileLoop_rule [OF loop, where I = ?I, OF I0])
    fix a b
    assume a: "?I a" and body: "loopBody K time r a = Inr b"
    from a have sa: "same_setup (calculator a) this" by simp
    then have ca: "lightTimeConvergenceCriteria (calculator a) = ?crit"
      "stateFunctionOfTransmittingBody (calculator a) = stateFunctionOfTransmittingBody this"
      "stateFunctionOfReceivingBody (calculator a) = stateFunctionOfReceivingBody this"
      by (simp_all add: same_setup_def)
    note p = loopBody_pass [OF body]
    have sb: "same_setup (calculator b) this"
      using loopBody_same_setup [OF body] sa by (simp add: same_setup_def)
    have fb: "if r then receiverState b = stateFunctionOfReceivingBody this time
              else transmitterState b = stateFunctionOfTransmittingBody this time"
      using a p(2) by (cases r) simp_all
    have shape: "?shape b (previousLightTimeCalculation a)"
      using a p(2) ca by (cases r) simp_all
    have "\<bar>newLightTimeCalculation b - previousLightTimeCalculation a\<bar>
             < getAbsoluteTolerance K ?crit
          \<or> counter b = maximumNumberOfIterations ?crit + 1"
      if "isToleranceReached b"
      using p(3) [OF that] p(1) ca by auto
    with shape sb fb show "?I b" by blast
  qed
  moreover have "isToleranceReached s" using loop by (rule whileLoop_ends_reached)
  moreover have "counter s \<le> int n"
    using whileLoop_counter_bound [OF loop] by (simp add: initialState_fields)
  ultimately show ?thesis using limit by auto
qed

lemma solve_within_tolerance:
  assumes ret: "calculateLightTimeWithMultiLegLinkEndsStates n K this sts tms time r idx
                  = Some (Inr res)"
    and limit: "int n \<le> maximumNumberOfIterations (lightTimeConvergenceCriteria this)"
    and guess: "initialGuess tms time (unat idx) (unat (idx + 1)) = Inr (rt, tt)"
    and fixed: "if r then stateFunctionOfReceivingBody this rt
                            = stateFunctionOfReceivingBody this time
                else stateFunctionOfTransmittingBody this tt
                       = stateFunctionOfTransmittingBody this time"
  shows "\<exists>x. solutionWithinTolerance K this time r sts tms (unat idx) (unat (idx + 1)) x res"
proof -
  from ret guess obtain s where
    loop: "whileLoop n K time r (initialState K this rt tt) = Some (Inr s)"
    and out: "setOutput sts tms (unat idx) (unat (idx + 1)) s = Inr res"
    by (auto elim!: solve_returns_cases)
  from loop_end_within_tolerance [OF loop limit fixed]
  obtain x where sh: "if r then receptionTime s = time \<and> transmissionTime s = time - x
                     \<and> receiverState s = stateFunctionOfReceivingBody this time
                     \<and> transmitterState s = stateFunctionOfTransmittingBody this (time - x)
              else transmissionTime s = time \<and> receptionTime s = time + x
                     \<and> transmitterState s = stateFunctionOfTransmittingBody this time
                     \<and> receiverState s = stateFunctionOfReceivingBody this (time + x)"
    and tol: "\<bar>newLightTimeCalculation s - x\<bar>
               < getAbsoluteTolerance K (lightTimeConvergenceCriteria this)"
    by blast
  have cc: "cache_consistent K s"
    using loop by (rule whileLoop_cache_consistent) (simp add: initialState_fields)
  note o = setOutput_fields [OF out]
  have "solutionWithinTolerance K this time r sts tms (unat idx) (unat (idx + 1)) x res"
    using sh tol cc
    by (cases r)
       (simp_all add: solutionWithinTolerance_def o cache_consistent_def idealLightTimeAt_def
          getCurrentLightTimeCorrection_def)
  then show ?thesis ..
qed

lemma solve_constant_correction:
  assumes ret: "calculateLightTimeWithMultiLegLinkEndsStates n K this sts tms time r idx
                  = Some (Inr res)"
    and const: "\<And>tS rS tT tR. (\<Sum>f\<leftarrow>correctionFunctions this. f tS rS tT tR) = c"
  shows "getCurrentLightTimeCorrection (calculatorAfter res) = c"
proof -
  from ret obtain rt tt s where
    loop: "whileLoop n K time r (initialState K this rt tt) = Some (Inr s)"
    and out: "setOutput sts tms (unat idx) (unat (idx + 1)) s = Inr res"
    by (rule solve_returns_cases)
  let ?I = "\<lambda>a. same_setup (calculator a) this \<and> currentCorrection (calculator a) = c"
  have I0: "?I (initialState K this rt tt)"
    by (simp add: initialState_same_setup)
       (simp add: initialState_fields currentCorrection_setTotal const)
  have "?I s"
  proof (rule whileLoop_rule [OF loop, where I = ?I, OF I0])
    fix a b
    assume a: "?I a" and body: "loopBody K time r a = Inr b"
    from a have cf: "correctionFunctions (calculator a) = correctionFunctions this"
      by (simp add: same_setup_def)
    have "currentCorrection (calculator b) = c"
      by (rule loopBody_constant_corrections [OF body]) (use a cf const in simp_all)
    moreover have "same_setup (calculator b) this"
      using loopBody_same_setup [OF body] a by (simp add: same_setup_def)
    ultimately show "?I b" by simp
  qed
  then show ?thesis
    by (simp add: setOutput_fields [OF out] getCurrentLightTimeCorrection_def)
qed

text \<open>Two approximate fixed points of a contraction are close.\<close>

lemma contraction_close:
  fixes E :: "real \<Rightarrow> real"
  assumes q: "0 \<le> q" "q < 1"
    and lip: "\<And>x y. \<bar>E x - E y\<bar> \<le> q * \<bar>x - y\<bar>"
    and x: "\<bar>E x + c - x\<bar> < tol" and y: "\<bar>E y + c - y\<bar> < tol"
  shows "\<bar>x - y\<bar> < 2 * tol / (1 - q)"
    and "\<bar>(E x + c) - (E y + c)\<bar> \<le> 2 * q * tol / (1 - q)"
proof -
  have "\<bar>x - y\<bar> \<le> \<bar>E x + c - x\<bar> + \<bar>E x - E y\<bar> + \<bar>E y + c - y\<bar>" by linarith
  with lip [of x y] x y have "\<bar>x - y\<bar> < 2 * tol + q * \<bar>x - y\<bar>" by linarith
  then have "\<bar>x - y\<bar> * (1 - q) < 2 * tol" by (simp add: algebra_simps)
  with q(2) show d: "\<bar>x - y\<bar> < 2 * tol / (1 - q)"
    by (simp add: pos_less_divide_eq)
  have "q * \<bar>x - y\<bar> \<le> q * (2 * tol / (1 - q))"
    using d q(1) by (intro mult_left_mono) simp_all
  also have "q * (2 * tol / (1 - q)) = 2 * q * tol / (1 - q)" by simp
  finally have "q * \<bar>x - y\<bar> \<le> 2 * q * tol / (1 - q)" .
  with lip [of x y] have "\<bar>E x - E y\<bar> \<le> 2 * q * tol / (1 - q)" by (rule order_trans)
  then show "\<bar>(E x + c) - (E y + c)\<bar> \<le> 2 * q * tol / (1 - q)" by simp
qed

text \<open>
  C4, as the code has it. An initial guess (two numbers in the time vector at the
  indices of the leg) replaces only the seed of the iteration. Take a guess under which
  the link end whose time is given has the state it has at \<open>time\<close>, and let the solve
  with the guess and the solve without it both return within
  \<^verbatim>\<open>maximumNumberOfIterations_\<close> passes. Then each result is a solution of the
  light-time equation within the tolerance, for a solved light time of its own: the
  output times are \<open>time\<close> and \<open>time\<close> moved by the solved light time, the output states
  are the values of the state functions at the output times, and the returned light
  time is the ideal light time of these states plus the cached correction and differs
  from the solved light time by less than the tolerance. The two results need not be
  equal. If the total correction is a constant and the ideal light time, as a function
  of the solved light time, is a contraction with factor \<open>q < 1\<close>, then the two solved
  light times (and so the output times) differ by less than \<open>2 * tolerance / (1 - q)\<close>
  and the two returned light times by at most \<open>2 * q * tolerance / (1 - q)\<close>.
\<close>

theorem initial_guess_same_solution_within_tolerance:
  assumes "unat multiLegTransmitterIndex < length linkEndsTimes"
    and "unat (multiLegTransmitterIndex + 1) < length linkEndsTimes"
    and "linkEndsTimes ! unat multiLegTransmitterIndex = Num transmissionGuess"
    and "linkEndsTimes ! unat (multiLegTransmitterIndex + 1) = Num receptionGuess"
    and "if isTimeAtReception
         then stateFunctionOfReceivingBody this receptionGuess
                = stateFunctionOfReceivingBody this time
         else stateFunctionOfTransmittingBody this transmissionGuess
                = stateFunctionOfTransmittingBody this time"
    and "calculateLightTimeWithMultiLegLinkEndsStates n K this linkEndsStates linkEndsTimes
           time isTimeAtReception multiLegTransmitterIndex = Some (Inr resWarm)"
    and "int n \<le> maximumNumberOfIterations (lightTimeConvergenceCriteria this)"
    and "calculateLightTimeWithMultiLegLinkEndsStates m K this linkEndsStates
           (linkEndsTimes[unat multiLegTransmitterIndex := NaN,
                          unat (multiLegTransmitterIndex + 1) := NaN])
           time isTimeAtReception multiLegTransmitterIndex = Some (Inr resCold)"
    and "int m \<le> maximumNumberOfIterations (lightTimeConvergenceCriteria this)"
  shows "\<exists>xWarm xCold.
           solutionWithinTolerance K this time isTimeAtReception linkEndsStates linkEndsTimes
             (unat multiLegTransmitterIndex) (unat (multiLegTransmitterIndex + 1))
             xWarm resWarm
         \<and> solutionWithinTolerance K this time isTimeAtReception linkEndsStates linkEndsTimes
             (unat multiLegTransmitterIndex) (unat (multiLegTransmitterIndex + 1))
             xCold resCold
         \<and> ((\<forall>tS rS tT tR. (\<Sum>f\<leftarrow>correctionFunctions this. f tS rS tT tR) = c)
              \<and> 0 \<le> q \<and> q < 1
              \<and> (\<forall>x y. \<bar>idealLightTimeAt K this time isTimeAtReception x
                          - idealLightTimeAt K this time isTimeAtReception y\<bar>
                        \<le> q * \<bar>x - y\<bar>)
            \<longrightarrow> \<bar>xWarm - xCold\<bar>
                  < 2 * getAbsoluteTolerance K (lightTimeConvergenceCriteria this) / (1 - q)
                \<and> \<bar>returnedLightTime resWarm - returnedLightTime resCold\<bar>
                  \<le> 2 * q * getAbsoluteTolerance K (lightTimeConvergenceCriteria this)
                      / (1 - q))"
proof -
  let ?ti = "unat multiLegTransmitterIndex"
  let ?ri = "unat (multiLegTransmitterIndex + 1)"
  let ?cold = "linkEndsTimes[?ti := NaN, ?ri := NaN]"
  let ?tol = "getAbsoluteTolerance K (lightTimeConvergenceCriteria this)"
  let ?E = "idealLightTimeAt K this time isTimeAtReception"
  have ne: "?ri \<noteq> ?ti" by (rule unat_succ_neq)
  have warm: "initialGuess linkEndsTimes time ?ti ?ri = Inr (receptionGuess, transmissionGuess)"
    using assms(1-4) by (simp add: initialGuess_def vector_at_def)
  have cold: "initialGuess ?cold time ?ti ?ri = Inr (time, time)"
    using assms(1,2) ne by (simp add: initialGuess_def vector_at_def)
  from solve_within_tolerance [OF assms(6,7) warm assms(5)]
  obtain xw where w: "solutionWithinTolerance K this time isTimeAtReception linkEndsStates
      linkEndsTimes ?ti ?ri xw resWarm"
    by blast
  have "if isTimeAtReception
        then stateFunctionOfReceivingBody this time = stateFunctionOfReceivingBody this time
        else stateFunctionOfTransmittingBody this time
               = stateFunctionOfTransmittingBody this time"
    by simp
  from solve_within_tolerance [OF assms(8,9) cold this]
  obtain xc where "solutionWithinTolerance K this time isTimeAtReception linkEndsStates
      ?cold ?ti ?ri xc resCold"
    by blast
  then have c: "solutionWithinTolerance K this time isTimeAtReception linkEndsStates
      linkEndsTimes ?ti ?ri xc resCold"
    unfolding solutionWithinTolerance_def list_update_twice_overwritten .
  have "\<bar>xw - xc\<bar> < 2 * ?tol / (1 - q)
      \<and> \<bar>returnedLightTime resWarm - returnedLightTime resCold\<bar> \<le> 2 * q * ?tol / (1 - q)"
    if const: "\<forall>tS rS tT tR. (\<Sum>f\<leftarrow>correctionFunctions this. f tS rS tT tR) = c"
      and q: "0 \<le> q" "q < 1"
      and lip: "\<forall>x y. \<bar>?E x - ?E y\<bar> \<le> q * \<bar>x - y\<bar>"
  proof -
    from const have k: "(\<Sum>f\<leftarrow>correctionFunctions this. f tS rS tT tR) = c"
      for tS rS tT tR by blast
    note kw = solve_constant_correction [OF assms(6) k]
      and kc = solve_constant_correction [OF assms(8) k]
    from w [unfolded solutionWithinTolerance_def kw]
    have lw: "returnedLightTime resWarm = ?E xw + c"
      and tw': "\<bar>returnedLightTime resWarm - xw\<bar> < ?tol"
      by blast+
    from c [unfolded solutionWithinTolerance_def kc]
    have lc: "returnedLightTime resCold = ?E xc + c"
      and tc': "\<bar>returnedLightTime resCold - xc\<bar> < ?tol"
      by blast+
    from tw' have tw: "\<bar>?E xw + c - xw\<bar> < ?tol" by (simp only: lw)
    from tc' have tc: "\<bar>?E xc + c - xc\<bar> < ?tol" by (simp only: lc)
    from lip have l: "\<bar>?E x - ?E y\<bar> \<le> q * \<bar>x - y\<bar>" for x y by blast
    from contraction_close [where E = ?E and x = xw and y = xc, OF q l tw tc]
    show ?thesis by (simp only: lw lc)
  qed
  with w c show ?thesis by blast
qed

theorem initial_guess_same_solution_within_tolerance_witness:
  "\<exists>resWarm resCold xWarm xCold.
     calculateLightTimeWithMultiLegLinkEndsStates 3 exampleConstants
       (approachingCalculator False) [NaN, NaN] [Num (- 1), Num 0] 0 True 0
       = Some (Inr resWarm)
   \<and> calculateLightTimeWithMultiLegLinkEndsStates 3 exampleConstants
       (approachingCalculator False) [NaN, NaN] [NaN, NaN] 0 True 0
       = Some (Inr resCold)
   \<and> solutionWithinTolerance exampleConstants (approachingCalculator False) 0 True
         [NaN, NaN] [Num (- 1), Num 0] 0 1 xWarm resWarm
   \<and> solutionWithinTolerance exampleConstants (approachingCalculator False) 0 True
         [NaN, NaN] [Num (- 1), Num 0] 0 1 xCold resCold
   \<and> \<bar>xWarm - xCold\<bar> < 2 * (3 / 10) / (1 - 1 / 2)
   \<and> \<bar>returnedLightTime resWarm - returnedLightTime resCold\<bar>
       \<le> 2 * (1 / 2) * (3 / 10) / (1 - 1 / 2)
   \<and> returnedLightTime resWarm = 15 / 8
   \<and> returnedLightTime resCold = 15 / 8"
proof -
  let ?K = exampleConstants
  let ?calc = "approachingCalculator False"
  let ?warm = "[Num (- 1), Num 0 :: real or_nan]"
  have "\<exists>res. calculateLightTimeWithMultiLegLinkEndsStates 3 ?K ?calc [NaN, NaN] ?warm
                 0 True 0 = Some (Inr res)
          \<and> returnedLightTime res = 15 / 8"
    by (simp add: solve_defs example_defs numeral_3_eq_3)
  then obtain resWarm where
    w: "calculateLightTimeWithMultiLegLinkEndsStates 3 ?K ?calc [NaN, NaN] ?warm 0 True 0
          = Some (Inr resWarm)"
    and lw: "returnedLightTime resWarm = 15 / 8"
    by (elim exE conjE)
  have "\<exists>res. calculateLightTimeWithMultiLegLinkEndsStates 3 ?K ?calc [NaN, NaN] [NaN, NaN]
                 0 True 0 = Some (Inr res)
          \<and> returnedLightTime res = 15 / 8"
    by (simp add: solve_defs example_defs numeral_3_eq_3)
  then obtain resCold where
    c: "calculateLightTimeWithMultiLegLinkEndsStates 3 ?K ?calc [NaN, NaN] [NaN, NaN] 0 True 0
          = Some (Inr resCold)"
    and lc: "returnedLightTime resCold = 15 / 8"
    by (elim exE conjE)
  have e: "?warm[unat (0 :: 32 word) := NaN, unat (0 + 1 :: 32 word) := NaN] = [NaN, NaN]"
    by simp
  have h: "unat (0 :: 32 word) < length ?warm" "unat (0 + 1 :: 32 word) < length ?warm"
    "?warm ! unat (0 :: 32 word) = Num (- 1)" "?warm ! unat (0 + 1 :: 32 word) = Num 0"
    "if True
     then stateFunctionOfReceivingBody ?calc 0 = stateFunctionOfReceivingBody ?calc 0
     else stateFunctionOfTransmittingBody ?calc (- 1) = stateFunctionOfTransmittingBody ?calc 0"
    by simp_all
  have m: "int 3 \<le> maximumNumberOfIterations (lightTimeConvergenceCriteria ?calc)"
    by (simp add: approachingCalculator_def)
  have c': "calculateLightTimeWithMultiLegLinkEndsStates 3 ?K ?calc [NaN, NaN]
              (?warm[unat (0 :: 32 word) := NaN, unat (0 + 1 :: 32 word) := NaN]) 0 True 0
            = Some (Inr resCold)"
    using c by (simp only: e)
  have tol: "getAbsoluteTolerance ?K (lightTimeConvergenceCriteria ?calc) = 3 / 10"
    by (simp add: getAbsoluteTolerance_def approachingCalculator_def)
  have E: "idealLightTimeAt ?K ?calc 0 True x = \<bar>1 + x / 2\<bar>" for x
  proof -
    have "(299792458 :: real) - 299792458 * (0 - x) / 2 = 299792458 * (1 + x / 2)"
      by (simp add: algebra_simps)
    then have "\<bar>(299792458 :: real) - 299792458 * (0 - x) / 2\<bar> / 299792458 = \<bar>1 + x / 2\<bar>"
      by (simp only: abs_mult) simp
    then show ?thesis
      by (simp add: idealLightTimeAt_def approachingCalculator_def exampleConstants_def)
  qed
  have lip: "\<forall>x y. \<bar>idealLightTimeAt ?K ?calc 0 True x - idealLightTimeAt ?K ?calc 0 True y\<bar>
               \<le> 1 / 2 * \<bar>x - y\<bar>"
  proof (intro allI)
    fix x y :: real
    have "\<bar>\<bar>1 + x / 2\<bar> - \<bar>1 + y / 2\<bar>\<bar> \<le> \<bar>(1 + x / 2) - (1 + y / 2)\<bar>"
      by (rule abs_triangle_ineq3)
    also have "(1 + x / 2) - (1 + y / 2) = 1 / 2 * (x - y)"
      by (simp add: algebra_simps)
    also have "\<bar>1 / 2 * (x - y)\<bar> = 1 / 2 * \<bar>x - y\<bar>"
      by (simp only: abs_mult abs_divide abs_one abs_numeral)
    finally show "\<bar>idealLightTimeAt ?K ?calc 0 True x - idealLightTimeAt ?K ?calc 0 True y\<bar>
               \<le> 1 / 2 * \<bar>x - y\<bar>"
      by (simp only: E)
  qed
  have const: "\<forall>tS rS tT tR. (\<Sum>f\<leftarrow>correctionFunctions ?calc. f tS rS tT tR) = 0"
    by (simp add: approachingCalculator_def)
  from initial_guess_same_solution_within_tolerance
         [where c = 0 and q = "1 / 2", OF h w m c' m]
  obtain xWarm xCold where
    sw: "solutionWithinTolerance ?K ?calc 0 True [NaN, NaN] ?warm
           (unat (0 :: 32 word)) (unat (0 + 1 :: 32 word)) xWarm resWarm"
    and sc: "solutionWithinTolerance ?K ?calc 0 True [NaN, NaN] ?warm
           (unat (0 :: 32 word)) (unat (0 + 1 :: 32 word)) xCold resCold"
    and imp: "(\<forall>tS rS tT tR. (\<Sum>f\<leftarrow>correctionFunctions ?calc. f tS rS tT tR) = 0)
              \<and> (0 :: real) \<le> 1 / 2 \<and> (1 / 2 :: real) < 1
              \<and> (\<forall>x y. \<bar>idealLightTimeAt ?K ?calc 0 True x
                          - idealLightTimeAt ?K ?calc 0 True y\<bar>
                        \<le> 1 / 2 * \<bar>x - y\<bar>)
            \<longrightarrow> \<bar>xWarm - xCold\<bar>
                  < 2 * getAbsoluteTolerance ?K (lightTimeConvergenceCriteria ?calc)
                      / (1 - 1 / 2)
                \<and> \<bar>returnedLightTime resWarm - returnedLightTime resCold\<bar>
                  \<le> 2 * (1 / 2) * getAbsoluteTolerance ?K (lightTimeConvergenceCriteria ?calc)
                      / (1 - 1 / 2)"
    by (elim exE conjE) (rule that; assumption)
  from imp const lip
  have cl: "\<bar>xWarm - xCold\<bar>
                  < 2 * getAbsoluteTolerance ?K (lightTimeConvergenceCriteria ?calc)
                      / (1 - 1 / 2)"
    "\<bar>returnedLightTime resWarm - returnedLightTime resCold\<bar>
                  \<le> 2 * (1 / 2) * getAbsoluteTolerance ?K (lightTimeConvergenceCriteria ?calc)
                      / (1 - 1 / 2)"
    by simp_all
  have u: "unat (0 :: 32 word) = 0" "unat (0 + 1 :: 32 word) = 1" by simp_all
  from w c sw sc cl lw lc show ?thesis
    unfolding tol u by blast
qed

text \<open>
  C4, as stated, fails. A transmitter that approaches a receiver at rest at half the
  speed of light, reception at time 0, tolerance 0.3 s, corrections iterated (so that a
  first change below the tolerance ends the loop): from the zero-light-time seed the
  estimates are 1, 1.5, 1.75 and the solve returns 1.75 s with transmission at -1.5;
  from the initial guess (transmission at -3.18, reception at 0) the estimates are
  2.59, 2.295 and the solve returns 2.295 s with transmission at -2.59. The exact light
  time is 2 s; the two results differ by 0.545 s, more than the tolerance and less
  than \<open>2 * q * tolerance / (1 - q) = 0.6\<close> s.
\<close>

theorem initial_guess_changes_light_time_counterexample:
  "map_option (map_sum id (\<lambda>res. (returnedLightTime res, linkEndsTimesAfter res)))
     (calculateLightTimeWithMultiLegLinkEndsStates 2 exampleConstants
        (approachingCalculator True) [NaN, NaN] [NaN, NaN] 0 True 0)
     = Some (Inr (7 / 4, [Num (- (3 / 2)), Num 0]))
   \<and> map_option (map_sum id (\<lambda>res. (returnedLightTime res, linkEndsTimesAfter res)))
       (calculateLightTimeWithMultiLegLinkEndsStates 2 exampleConstants
          (approachingCalculator True) [NaN, NaN] [Num (- (159 / 50)), Num 0] 0 True 0)
     = Some (Inr (459 / 200, [Num (- (259 / 100)), Num 0]))"
  by (simp add: solve_defs example_defs numeral_2_eq_2)

text \<open>
  The theorem leaves out an initial guess under which the link end whose time is given
  has another state than at \<open>time\<close>. The loop evaluates only the other link end again,
  so the output then pairs the time \<open>time\<close> with the state at the guessed time, and the
  light time is that of the guessed state. A receiver that recedes at the speed of
  light, reception at time 0: without a guess the light time is 1 s and the receiver
  state is the one at 0; with the guess (transmission at 0, reception at 2) the light
  time is 3 s and the receiver state is the one at 2, beside the reception time 0.
\<close>

lemma initial_guess_keeps_state_at_guessed_time:
  "map_option (map_sum id (\<lambda>res. (returnedLightTime res, linkEndsTimesAfter res,
                                     linkEndsStatesAfter res ! 1)))
     (calculateLightTimeWithMultiLegLinkEndsStates 2 exampleConstants
        recedingReceiverCalculator [NaN, NaN] [NaN, NaN] 0 True 0)
     = Some (Inr (1, [Num (- 1), Num 0], Num (stateOnAxis 299792458)))
   \<and> map_option (map_sum id (\<lambda>res. (returnedLightTime res, linkEndsTimesAfter res,
                                       linkEndsStatesAfter res ! 1)))
       (calculateLightTimeWithMultiLegLinkEndsStates 2 exampleConstants
          recedingReceiverCalculator [NaN, NaN] [Num 0, Num 2] 0 True 0)
     = Some (Inr (3, [Num (- 3), Num 0], Num (stateOnAxis (299792458 * 3))))
   \<and> stateFunctionOfReceivingBody recedingReceiverCalculator 0 = stateOnAxis 299792458"
  by (simp add: solve_defs example_defs numeral_2_eq_2)

section \<open>The retransmission delays\<close>

lemma unat_numberOfLinkEnds:
  assumes "length calculators + 1 < 2 ^ 32"
  shows "unat (numberOfLinkEnds (newMultiLegLightTimeCalculator calculators criteria))
           = length calculators + 1"
proof -
  have "unat (of_nat (length calculators + 1) :: 32 word) = length calculators + 1"
    using assms by (simp only: unat_of_nat) simp
  then show ?thesis by (simp add: newMultiLegLightTimeCalculator_def)
qed

lemma unat_numberOfLinkEnds_minus_2:
  assumes "1 \<le> length calculators" "length calculators + 1 < 2 ^ 32"
  shows "unat (numberOfLinkEnds (newMultiLegLightTimeCalculator calculators criteria) - 2)
           = length calculators - 1"
proof -
  have "length calculators + 1 = (length calculators - 1) + 2"
    using assms(1) by arith
  then have "(of_nat (length calculators + 1) :: 32 word)
               = of_nat ((length calculators - 1) + 2)"
    by (simp only:)
  also have "\<dots> = of_nat (length calculators - 1) + 2"
    by (simp only: of_nat_add of_nat_numeral)
  finally have "(of_nat (length calculators + 1) :: 32 word) - 2 = of_nat (length calculators - 1)"
    by simp
  moreover have "unat (of_nat (length calculators - 1) :: 32 word) = length calculators - 1"
    using assms(2) by (simp only: unat_of_nat) simp
  ultimately show ?thesis by (simp add: newMultiLegLightTimeCalculator_def)
qed

text \<open>
  C5. For a multi-leg calculator built from \<open>N\<close> single-leg calculators (\<open>N \<ge> 1\<close> legs
  over \<open>N + 1\<close> link ends, the count fitting an \<^verbatim>\<open>unsigned int\<close>): without ancillary
  settings the delays are \<open>N + 1\<close> zeros; a supplied vector of length \<open>N + 1\<close> is used as
  it is; one of length \<open>N - 1\<close> gets a zero at each end; any other length is an error,
  and the whole solve raises it before a leg is solved, so whatever the legs' failure
  policies are. The witness has three link ends and a vector of length two.
\<close>

theorem retransmission_delays_normalized:
  assumes "this = newMultiLegLightTimeCalculator calculators criteria"
    and "1 \<le> length calculators" and "length calculators + 1 < 2 ^ 32"
  shows "currentRetransmissionDelays this None = Inr (replicate (length calculators + 1) 0)
    \<and> (\<forall>delays. length delays = length calculators + 1
          \<longrightarrow> currentRetransmissionDelays this (Some delays) = Inr delays)
    \<and> (\<forall>delays. length delays + 1 = length calculators
          \<longrightarrow> currentRetransmissionDelays this (Some delays) = Inr (0 # delays @ [0]))
    \<and> (\<forall>delays. length delays \<noteq> length calculators + 1
          \<longrightarrow> length delays + 1 \<noteq> length calculators
          \<longrightarrow> currentRetransmissionDelays this (Some delays)
                = Inl (InvalidRetransmissionDelaysSize (length delays))
              \<and> multiLegCalculateLightTimeWithLinkEndsStates n K
                    getNWayLinkIndexFromLinkEndType this time linkEndAssociatedWithTime
                    (Some delays)
                  = Some (Inl (InvalidRetransmissionDelaysSize (length delays))))"
proof -
  note a = unat_numberOfLinkEnds [OF assms(3), of criteria]
  note b = unat_numberOfLinkEnds_minus_2 [OF assms(2,3), of criteria]
  show ?thesis
    unfolding assms(1) multiLegCalculateLightTimeWithLinkEndsStates_def
      currentRetransmissionDelays_def
    using assms(2) by (auto simp: a b)
qed


theorem retransmission_delays_normalized_witness:
  "currentRetransmissionDelays twoLegCalculator None = Inr [0, 0, 0]
   \<and> currentRetransmissionDelays twoLegCalculator (Some [1, 2, 3]) = Inr [1, 2, 3]
   \<and> currentRetransmissionDelays twoLegCalculator (Some [5]) = Inr [0, 5, 0]
   \<and> multiLegCalculateLightTimeWithLinkEndsStates 0 exampleConstants linkEndByIndex
        twoLegCalculator 10 2 (Some [1, 2])
       = Some (Inl (InvalidRetransmissionDelaysSize 2))"
proof -
  let ?calcs = "[staticCalculator [] defaultLightTimeConvergenceCriteria,
                 staticCalculator [] defaultLightTimeConvergenceCriteria]"
  have h: "twoLegCalculator
             = newMultiLegLightTimeCalculator ?calcs defaultLightTimeConvergenceCriteria"
    "1 \<le> length ?calcs" "length ?calcs + 1 < 2 ^ 32"
    by (simp_all add: twoLegCalculator_def)
  note t = retransmission_delays_normalized
             [OF h, of 0 exampleConstants linkEndByIndex 10 2]
  from t have "currentRetransmissionDelays twoLegCalculator None = Inr [0, 0, 0]"
    by (simp add: numeral_3_eq_3)
  moreover
  from t have "currentRetransmissionDelays twoLegCalculator (Some [1, 2, 3]) = Inr [1, 2, 3]"
    by simp
  moreover
  from t have "currentRetransmissionDelays twoLegCalculator (Some [5]) = Inr [0, 5, 0]"
    by simp
  moreover
  from t have "multiLegCalculateLightTimeWithLinkEndsStates 0 exampleConstants linkEndByIndex
        twoLegCalculator 10 2 (Some [1, 2])
       = Some (Inl (InvalidRetransmissionDelaysSize (length [1, 2 :: real])))"
    by simp
  ultimately show ?thesis by simp
qed

section \<open>The reference link end\<close>

text \<open>The delay vector that leaves the first block has an entry for every link end.\<close>

lemma unat_minus_2_plus_2: "unat x \<le> unat (x - 2) + 2" for x :: "32 word"
proof (cases "2 \<le> x")
  case True
  then have "unat (x - 2) = unat x - unat (2 :: 32 word)" by (rule unat_sub)
  then show ?thesis by simp
next
  case False
  then have "x < 2" by simp
  then have "unat x < unat (2 :: 32 word)" by (simp only: word_less_nat_alt)
  then show ?thesis by simp
qed

lemma currentRetransmissionDelays_length:
  assumes "currentRetransmissionDelays this ancillarySettings = Inr delays"
  shows "unat (numberOfLinkEnds this) \<le> length delays"
  using assms unat_minus_2_plus_2 [of "numberOfLinkEnds this"]
  by (auto simp: currentRetransmissionDelays_def split: option.splits if_splits)

lemma loopBody_no_configuration_error:
  "loopBody K time r s = Inl e \<Longrightarrow> \<not> is_configuration_error e"
  by (auto simp: loopBody_def Let_def isLightTimeSolutionConverged_def
      split: if_splits sum.splits prod.splits LightTimeFailureHandling.splits)

lemma whileLoop_no_configuration_error:
  "whileLoop n K time r s = Some (Inl e) \<Longrightarrow> \<not> is_configuration_error e"
proof (induction n arbitrary: s)
  case 0
  then show ?case by (simp split: if_splits)
next
  case (Suc n)
  then show ?case
    by (auto split: if_splits sum.splits dest: loopBody_no_configuration_error)
qed

lemma solve_no_configuration_error:
  assumes "calculateLightTimeWithMultiLegLinkEndsStates n K this sts tms time r idx
             = Some (Inl e)"
  shows "\<not> is_configuration_error e"
  using assms
  by (auto simp: calculateLightTimeWithMultiLegLinkEndsStates_def Let_def initialGuess_def
      setOutput_def vector_at_def vector_assign_at_def
      split: if_splits sum.splits option.splits prod.splits or_nan.splits
      dest: whileLoop_no_configuration_error)

lemma solveLeg_no_configuration_error:
  assumes "solveLeg n K delays r leg delayIndex w = Some (Inl e)"
  shows "\<not> is_configuration_error e"
  using assms
  by (auto simp: solveLeg_def vector_at_def Let_def
      split: if_splits sum.splits option.splits dest: solve_no_configuration_error)

lemma moveBackwards_no_configuration_error:
  "moveBackwards n K delays i w = Some (Inl e) \<Longrightarrow> \<not> is_configuration_error e"
proof (induction i arbitrary: w)
  case 0
  then show ?case by simp
next
  case (Suc i)
  then show ?case
    by (auto split: sum.splits option.splits dest: solveLeg_no_configuration_error)
qed

lemma moveForwards_no_configuration_error:
  "moveForwards n K delays bound i w = Some (Inl e) \<Longrightarrow> \<not> is_configuration_error e"
proof (induction n K delays bound i w rule: moveForwards.induct)
  case (1 n K delays bound i w)
  show ?case
  proof (cases "solveLeg n K delays False i (i + 1) w")
    case None
    with "1.prems" show ?thesis by (simp add: moveForwards.simps [of n K delays bound i w] split: if_splits)
  next
    case (Some x)
    show ?thesis
    proof (cases x)
      case (Inl e')
      with Some "1.prems" show ?thesis
        by (auto simp: moveForwards.simps [of n K delays bound i w] split: if_splits
            dest: solveLeg_no_configuration_error)
    next
      case (Inr w')
      with Some "1.prems" have "i < bound"
        and "moveForwards n K delays bound (i + 1) w' = Some (Inl e)"
        by (auto simp: moveForwards.simps [of n K delays bound i w] split: if_splits)
      with "1.IH" [OF _ Some Inr] show ?thesis by simp
    qed
  qed
qed

lemma walkLegs_no_configuration_error:
  assumes "walkLegs n K this delays time start = Some (Inl e)"
  shows "\<not> is_configuration_error e"
  using assms
  by (auto simp: walkLegs_def vector_at_def
      split: if_splits sum.splits option.splits
      dest: moveBackwards_no_configuration_error moveForwards_no_configuration_error)

text \<open>
  C6. Let the reference link end be interior: its index is a link end's, and neither 0
  nor \<^verbatim>\<open>numberOfLinkEnds_ - 1\<close>. If its delay in the normalized vector is not zero, the
  solve raises the error of the reference link end. If the delay is zero, the solve is
  the walk over the legs from that link end, and no error the walk may raise is a
  configuration error.
\<close>

theorem interior_reference_link_end_delay:
  assumes "currentRetransmissionDelays this ancillarySettings = Inr delays"
    and "getNWayLinkIndexFromLinkEndType linkEndAssociatedWithTime (numberOfLinkEnds this)
           = Inr startLinkEndIndex"
    and "startLinkEndIndex \<noteq> 0"
    and "startLinkEndIndex \<noteq> numberOfLinkEnds this - 1"
    and "unat startLinkEndIndex < unat (numberOfLinkEnds this)"
  shows "(delays ! unat startLinkEndIndex \<noteq> 0
            \<longrightarrow> multiLegCalculateLightTimeWithLinkEndsStates n K
                  getNWayLinkIndexFromLinkEndType this time linkEndAssociatedWithTime
                  ancillarySettings
                = Some (Inl NonZeroDelayAtReferenceLinkEnd))
       \<and> (delays ! unat startLinkEndIndex = 0
            \<longrightarrow> multiLegCalculateLightTimeWithLinkEndsStates n K
                  getNWayLinkIndexFromLinkEndType this time linkEndAssociatedWithTime
                  ancillarySettings
                = walkLegs n K this delays time startLinkEndIndex
              \<and> (\<forall>e. walkLegs n K this delays time startLinkEndIndex = Some (Inl e)
                     \<longrightarrow> \<not> is_configuration_error e))"
proof -
  have "unat startLinkEndIndex < length delays"
    using currentRetransmissionDelays_length [OF assms(1)] assms(5) by simp
  with assms(1-4) show ?thesis
    by (auto simp: multiLegCalculateLightTimeWithLinkEndsStates_def referenceLinkEndCheck_def
        vector_at_def dest: walkLegs_no_configuration_error)
qed


theorem interior_reference_link_end_delay_witness:
  "multiLegCalculateLightTimeWithLinkEndsStates (Suc (Suc 0)) exampleConstants linkEndByIndex
     twoLegCalculator 10 1 (Some [0, 5, 0])
   = Some (Inl NonZeroDelayAtReferenceLinkEnd)
   \<and> map_option (map_sum id (\<lambda>res. (returnedTotalLightTime res, linkEndsTimesOutput res)))
       (multiLegCalculateLightTimeWithLinkEndsStates (Suc (Suc 0)) exampleConstants linkEndByIndex
          twoLegCalculator 10 1 (Some [0, 0, 0]))
     = Some (Inr (2, [Num 9, Num 10, Num 10, Num 11]))"
proof -
  have n: "numberOfLinkEnds twoLegCalculator = 3" "numberOfLinks twoLegCalculator = 2"
    by (simp_all add: twoLegCalculator_def newMultiLegLightTimeCalculator_def)
  have h: "linkEndByIndex 1 (numberOfLinkEnds twoLegCalculator) = Inr 1"
    "(1 :: 32 word) \<noteq> 0" "(1 :: 32 word) \<noteq> numberOfLinkEnds twoLegCalculator - 1"
    by (simp_all add: linkEndByIndex_def n)
  have d1: "currentRetransmissionDelays twoLegCalculator (Some [0, 5, 0]) = Inr [0, 5, 0]"
    and d2: "currentRetransmissionDelays twoLegCalculator (Some [0, 0, 0]) = Inr [0, 0, 0]"
    by (simp_all add: currentRetransmissionDelays_def n)
  have l: "unat (1 :: 32 word) < unat (numberOfLinkEnds twoLegCalculator)"
    by (simp add: n)
  from interior_reference_link_end_delay
         [where getNWayLinkIndexFromLinkEndType = linkEndByIndex
            and linkEndAssociatedWithTime = 1 and n = "Suc (Suc 0)" and K = exampleConstants
            and time = 10, OF d1 h l]
  have a: "multiLegCalculateLightTimeWithLinkEndsStates (Suc (Suc 0)) exampleConstants linkEndByIndex
     twoLegCalculator 10 1 (Some [0, 5, 0]) = Some (Inl NonZeroDelayAtReferenceLinkEnd)"
    by simp
  from interior_reference_link_end_delay
         [where getNWayLinkIndexFromLinkEndType = linkEndByIndex
            and linkEndAssociatedWithTime = 1 and n = "Suc (Suc 0)" and K = exampleConstants
            and time = 10, OF d2 h l]
  have b: "multiLegCalculateLightTimeWithLinkEndsStates (Suc (Suc 0)) exampleConstants linkEndByIndex
     twoLegCalculator 10 1 (Some [0, 0, 0]) = walkLegs (Suc (Suc 0)) exampleConstants twoLegCalculator
       [0, 0, 0] 10 1"
    by simp
  have r4: "replicate 4 x = [x, x, x, x]" for x :: "'a or_nan"
    by (simp add: numeral_eq_Suc)
  have r: "replicate (unat (2 * 2 :: 32 word)) x = [x, x, x, x]" for x :: "'a or_nan"
    by (simp add: r4)
  have u: "[a, b, c, d][2 := y] = [a, b, y, d]" "[a, b, c, d][3 := y] = [a, b, c, y]"
    for a b c d y :: "'a or_nan"
    by (simp_all add: numeral_2_eq_2 numeral_3_eq_3)
  have c: "lightTimeCalculators twoLegCalculator
             = [staticCalculator [] defaultLightTimeConvergenceCriteria,
                staticCalculator [] defaultLightTimeConvergenceCriteria]"
    by (simp add: twoLegCalculator_def newMultiLegLightTimeCalculator_def)
  have "map_option (map_sum id (\<lambda>res. (returnedTotalLightTime res, linkEndsTimesOutput res)))
          (walkLegs (Suc (Suc 0)) exampleConstants twoLegCalculator [0, 0, 0] 10 1)
        = Some (Inr (2, [Num 9, Num 10, Num 10, Num 11]))"
    by (simp add: walkLegs_def n r r4 u c solveLeg_def moveForwards.simps solve_defs
        exampleConstants_def staticCalculator_def defaultLightTimeConvergenceCriteria_def)
  with a b show ?thesis by simp
qed

end
